theory Spec2Isabelle
  imports Complex_Main
begin

unbundle bit_operations_syntax

section \<open>JavaScript values and arrays\<close>

text \<open>
  The matching engine of \<^verbatim>\<open>src/src/blossom.ts\<close> is a class whose fields are JavaScript
  arrays of numbers. Two kinds of numbers flow through it and never mix: index-like numbers
  (vertex, blossom, edge and endpoint ids, labels), always integral, and weight-like numbers
  (edge weights, dual variables, slacks, delta). An index-like value is a \<open>jsval\<close>: \<open>None\<close>
  is \<^verbatim>\<open>undefined\<close>, the value of a read outside an array. A weight-like value is a
  \<open>jsnum\<close>: \<open>None\<close> is \<^verbatim>\<open>undefined\<close> or \<^verbatim>\<open>NaN\<close>, which behave alike under
  arithmetic and comparison. Weights are exact rationals: every finite IEEE double is one,
  and rounding and overflow of the floating-point operations are not modelled.
\<close>

type_synonym jsval = "int option"
type_synonym jsnum = "rat option"

text \<open>
  A JavaScript array: its elements (a hole or a stored \<^verbatim>\<open>undefined\<close> is \<open>None\<close>) and the
  properties stored under keys that are not array indices (\<^verbatim>\<open>a[-1]\<close>, \<^verbatim>\<open>a[undefined]\<close>).
  Reading outside the elements gives \<^verbatim>\<open>undefined\<close>; writing past the end extends the
  array; writing under another key sets a property and leaves the length alone.
\<close>

datatype 'a jsarray = JSArray (elems: "'a option list") (props: "jsval \<Rightarrow> 'a option")

definition isIndex :: "int \<Rightarrow> bool" where
  "isIndex i \<longleftrightarrow> 0 \<le> i \<and> i < 4294967295"

definition aget :: "'a jsarray \<Rightarrow> jsval \<Rightarrow> 'a option" where
  "aget a k = (case k of
       None \<Rightarrow> props a None
     | Some i \<Rightarrow>
         if isIndex i then (if nat i < length (elems a) then elems a ! nat i else None)
         else props a k)"

definition aset :: "'a jsarray \<Rightarrow> jsval \<Rightarrow> 'a option \<Rightarrow> 'a jsarray" where
  "aset a k v = (case k of
       None \<Rightarrow> JSArray (elems a) ((props a)(None := v))
     | Some i \<Rightarrow>
         if isIndex i then
           (if nat i < length (elems a) then JSArray ((elems a)[nat i := v]) (props a)
            else JSArray (elems a @ replicate (nat i - length (elems a)) None @ [v]) (props a))
         else JSArray (elems a) ((props a)(k := v)))"

text \<open>\<^verbatim>\<open>new Array(len).fill(fill)\<close> and \<^verbatim>\<open>Array.from({length: len}, () => [])\<close>.\<close>

definition filledArray :: "nat \<Rightarrow> 'a \<Rightarrow> 'a jsarray" where
  "filledArray len fill = JSArray (replicate len (Some fill)) (\<lambda>k. None)"

definition initArrArr :: "nat \<Rightarrow> 'a list jsarray" where
  "initArrArr len = JSArray (replicate len (Some [])) (\<lambda>k. None)"

text \<open>\<^verbatim>\<open>Array.prototype.at\<close>: a negative index counts from the end.\<close>

definition at_list :: "'a option list \<Rightarrow> int \<Rightarrow> 'a option" where
  "at_list xs j =
     (let k = (if 0 \<le> j then j else int (length xs) + j)
      in if 0 \<le> k \<and> k < int (length xs) then xs ! nat k else None)"

text \<open>\<^verbatim>\<open>Array.prototype.indexOf\<close> with strict equality; \<open>-1\<close> when absent.\<close>

fun indexOf_from :: "int \<Rightarrow> 'a list \<Rightarrow> 'a \<Rightarrow> int" where
  "indexOf_from i [] x = -1"
| "indexOf_from i (y # ys) x = (if y = x then i else indexOf_from (i + 1) ys x)"

definition indexOf :: "'a list \<Rightarrow> 'a \<Rightarrow> int" where
  "indexOf xs x = indexOf_from 0 xs x"

text \<open>Comparisons of a possibly undefined number with a number: false on \<^verbatim>\<open>undefined\<close>.\<close>

definition jlt :: "jsval \<Rightarrow> int \<Rightarrow> bool" where
  "jlt a n = (case a of None \<Rightarrow> False | Some x \<Rightarrow> x < n)"

definition jle :: "jsval \<Rightarrow> int \<Rightarrow> bool" where
  "jle a n = (case a of None \<Rightarrow> False | Some x \<Rightarrow> x \<le> n)"

definition jge :: "jsval \<Rightarrow> int \<Rightarrow> bool" where
  "jge a n = (case a of None \<Rightarrow> False | Some x \<Rightarrow> n \<le> x)"

definition jgt :: "jsval \<Rightarrow> int \<Rightarrow> bool" where
  "jgt a n = (case a of None \<Rightarrow> False | Some x \<Rightarrow> n < x)"

text \<open>
  The bitwise operators convert their operands with ToInt32: \<^verbatim>\<open>undefined\<close> becomes 0 and
  an integer wraps into the signed 32-bit range.
\<close>

definition toInt32 :: "jsval \<Rightarrow> int" where
  "toInt32 a = (case a of None \<Rightarrow> 0 | Some i \<Rightarrow> (i + 2147483648) mod 4294967296 - 2147483648)"

definition jxor :: "jsval \<Rightarrow> int \<Rightarrow> int" where
  "jxor a b = toInt32 a XOR b"

definition jand :: "jsval \<Rightarrow> int \<Rightarrow> int" where
  "jand a b = toInt32 a AND b"

text \<open>Arithmetic and comparison on weight-like numbers; \<open>None\<close> (NaN) is absorbing.\<close>

definition nadd :: "jsnum \<Rightarrow> jsnum \<Rightarrow> jsnum" where
  "nadd a b = (case a of None \<Rightarrow> None | Some x \<Rightarrow> (case b of None \<Rightarrow> None | Some y \<Rightarrow> Some (x + y)))"

definition nsub :: "jsnum \<Rightarrow> jsnum \<Rightarrow> jsnum" where
  "nsub a b = (case a of None \<Rightarrow> None | Some x \<Rightarrow> (case b of None \<Rightarrow> None | Some y \<Rightarrow> Some (x - y)))"

definition nhalf :: "jsnum \<Rightarrow> jsnum" where
  "nhalf a = (case a of None \<Rightarrow> None | Some x \<Rightarrow> Some (x / 2))"

definition nlt :: "jsnum \<Rightarrow> jsnum \<Rightarrow> bool" where
  "nlt a b = (case a of None \<Rightarrow> False | Some x \<Rightarrow> (case b of None \<Rightarrow> False | Some y \<Rightarrow> x < y))"

definition nle :: "jsnum \<Rightarrow> jsnum \<Rightarrow> bool" where
  "nle a b = (case a of None \<Rightarrow> False | Some x \<Rightarrow> (case b of None \<Rightarrow> False | Some y \<Rightarrow> x \<le> y))"

section \<open>Errors and results\<close>

text \<open>
  The wrapper \<^verbatim>\<open>blossom\<close> throws \<^verbatim>\<open>Error\<close> objects with three different messages, besides
  the one for an input that is no array. The engine has no \<^verbatim>\<open>throw\<close> statement: what it
  can raise are the runtime's \<^verbatim>\<open>TypeError\<close> (reading a property of \<^verbatim>\<open>undefined\<close>,
  destructuring or iterating \<^verbatim>\<open>undefined\<close>) and \<^verbatim>\<open>RangeError\<close> (an array length
  above \<open>2^32 - 1\<close>).
\<close>

datatype validation_error = EdgesNotArray | MalformedEdge | InvalidVertex | InvalidWeight

datatype runtime_error = TypeError | RangeError

datatype error = Validation validation_error | Runtime runtime_error

text \<open>
  A computation of the engine: \<open>None\<close> when the fuel of a loop or of a recursion runs out
  (the code would still be running), \<open>Some (Inl e)\<close> when the runtime throws,
  \<open>Some (Inr x)\<close> when it returns.
\<close>

type_synonym 'a res = "(runtime_error + 'a) option"

definition ret :: "'a \<Rightarrow> 'a res" where
  "ret x = Some (Inr x)"

definition throw :: "runtime_error \<Rightarrow> 'a res" where
  "throw e = Some (Inl e)"

definition bind :: "'a res \<Rightarrow> ('a \<Rightarrow> 'b res) \<Rightarrow> 'b res" where
  "bind m f = (case m of None \<Rightarrow> None | Some (Inl e) \<Rightarrow> Some (Inl e) | Some (Inr x) \<Rightarrow> f x)"

text \<open>A \<^verbatim>\<open>for\<close> loop or a \<^verbatim>\<open>forEach\<close> over a list, threading the state.\<close>

primrec forEach :: "'a list \<Rightarrow> ('a \<Rightarrow> 's \<Rightarrow> 's res) \<Rightarrow> 's \<Rightarrow> 's res" where
  "forEach [] f s = ret s"
| "forEach (x # xs) f s = bind (f x s) (forEach xs f)"

section \<open>Input values and validation\<close>

text \<open>What a caller can pass for \<^verbatim>\<open>edges\<close>: any JavaScript value.\<close>

datatype number = Finite rat | PosInfinity | NegInfinity | NotANumber

datatype jsdata =
    DUndefined | DNull | DBool bool | DNumber number | DString string
  | DArray "jsdata list" | DObject

type_synonym edge = "int \<times> int \<times> rat"

definition isInteger :: "jsdata \<Rightarrow> bool" where
  "isInteger d = (case d of DNumber (Finite r) \<Rightarrow> r = of_int \<lfloor>r\<rfloor> | _ \<Rightarrow> False)"

definition isNegative :: "jsdata \<Rightarrow> bool" where
  "isNegative d = (case d of DNumber (Finite r) \<Rightarrow> r < 0 | _ \<Rightarrow> False)"

definition isFiniteNumber :: "jsdata \<Rightarrow> bool" where
  "isFiniteNumber d = (case d of DNumber (Finite r) \<Rightarrow> True | _ \<Rightarrow> False)"

definition intOf :: "jsdata \<Rightarrow> int" where
  "intOf d = (case d of DNumber (Finite r) \<Rightarrow> \<lfloor>r\<rfloor> | _ \<Rightarrow> 0)"

definition ratOf :: "jsdata \<Rightarrow> rat" where
  "ratOf d = (case d of DNumber (Finite r) \<Rightarrow> r | _ \<Rightarrow> 0)"

text \<open>The body of the validation loop, lines 39 to 50, for one element.\<close>

definition validateEdge :: "jsdata \<Rightarrow> validation_error + edge" where
  "validateEdge e = (case e of
       DArray [v1, v2, weight] \<Rightarrow>
         if \<not> isInteger v1 \<or> \<not> isInteger v2 \<or> isNegative v1 \<or> isNegative v2
           then Inl InvalidVertex
         else if \<not> isFiniteNumber weight then Inl InvalidWeight
         else Inr (intOf v1, intOf v2, ratOf weight)
     | _ \<Rightarrow> Inl MalformedEdge)"

fun validateEdges :: "jsdata list \<Rightarrow> validation_error + edge list" where
  "validateEdges [] = Inr []"
| "validateEdges (e # es) = (case validateEdge e of
       Inl err \<Rightarrow> Inl err
     | Inr x \<Rightarrow> (case validateEdges es of Inl err \<Rightarrow> Inl err | Inr xs \<Rightarrow> Inr (x # xs)))"

section \<open>The engine's state and its constructor\<close>

record edmonds =
  edges :: "edge list"
  maxCardinality :: bool
  nEdge :: nat
  nVertex :: nat
  maxWeight :: rat
  endpoint :: "int jsarray"
  neighbend :: "int list jsarray"
  mate :: "int jsarray"
  label :: "int jsarray"
  labelEnd :: "int jsarray"
  inBlossom :: "int jsarray"
  blossomParent :: "int jsarray"
  blossomChilds :: "jsval list jsarray"
  blossomBase :: "int jsarray"
  blossomEndPs :: "jsval list jsarray"
  bestEdge :: "int jsarray"
  blossomBestEdges :: "jsval list jsarray"
  unusedBlossoms :: "jsval list"
  dualVar :: "rat jsarray"
  allowEdge :: "bool jsarray"
  queue :: "jsval list"

definition calculateVertexCount :: "edge list \<Rightarrow> int" where
  "calculateVertexCount es = fold (\<lambda>(i, j, w) nV. max (max nV (i + 1)) (j + 1)) es 0"

definition calculateMaxWeight :: "edge list \<Rightarrow> rat" where
  "calculateMaxWeight es = fold (\<lambda>(i, j, w) m. max m w) es 0"

definition initEndpoint :: "edge list \<Rightarrow> int jsarray" where
  "initEndpoint es =
     JSArray (map (\<lambda>p. case es ! (p div 2) of (i, j, w) \<Rightarrow> Some (if p mod 2 = 0 then i else j))
                [0 ..< 2 * length es])
       (\<lambda>k. None)"

text \<open>\<^verbatim>\<open>this.neighbend[i].push(p)\<close>; the vertex is below \<open>nVertex\<close>, so the list is there.\<close>

definition pushAt :: "'a list jsarray \<Rightarrow> int \<Rightarrow> 'a \<Rightarrow> 'a list jsarray" where
  "pushAt a i p = (case aget a (Some i) of None \<Rightarrow> a | Some l \<Rightarrow> aset a (Some i) (Some (l @ [p])))"

definition initNeighbend :: "nat \<Rightarrow> edge list \<Rightarrow> int list jsarray" where
  "initNeighbend n es =
     fold (\<lambda>k nb. case es ! k of (i, j, w) \<Rightarrow>
              pushAt (pushAt nb i (2 * int k + 1)) j (2 * int k))
       [0 ..< length es] (initArrArr n)"

text \<open>
  The constructor, lines 87 to 206. The only failure is an array length that the runtime
  refuses: \<^verbatim>\<open>new Array(len)\<close> and \<^verbatim>\<open>Array.from({length: len})\<close> throw a RangeError
  when \<open>len\<close> exceeds \<open>2^32 - 1\<close>, first met for \<open>nVertex\<close> itself and then for
  \<open>2 * nVertex\<close>.
\<close>

definition newEdmonds :: "edge list \<Rightarrow> bool \<Rightarrow> runtime_error + edmonds" where
  "newEdmonds es mc =
     (let nV = calculateVertexCount es;
          mw = calculateMaxWeight es;
          n = nat nV
      in if 4294967295 < 2 * nV \<or> 4294967295 < 2 * int (length es) then Inl RangeError
         else Inr \<lparr>
           edges = es,
           maxCardinality = mc,
           nEdge = length es,
           nVertex = n,
           maxWeight = mw,
           endpoint = initEndpoint es,
           neighbend = initNeighbend n es,
           mate = filledArray n (-1),
           label = filledArray (2 * n) 0,
           labelEnd = filledArray (2 * n) (-1),
           inBlossom = JSArray (map (\<lambda>i. Some (int i)) [0 ..< n]) (\<lambda>k. None),
           blossomParent = filledArray (2 * n) (-1),
           blossomChilds = initArrArr (2 * n),
           blossomBase = JSArray (map (\<lambda>i. Some (int i)) [0 ..< n] @ replicate n (Some (-1))) (\<lambda>k. None),
           blossomEndPs = initArrArr (2 * n),
           bestEdge = filledArray (2 * n) (-1),
           blossomBestEdges = initArrArr (2 * n),
           unusedBlossoms = map (\<lambda>i. Some (int i + int n)) [0 ..< n],
           dualVar = JSArray (replicate n (Some mw) @ replicate n (Some 0)) (\<lambda>k. None),
           allowEdge = filledArray (length es) False,
           queue = []
         \<rparr>)"


section \<open>Small helpers of the class\<close>

definition getOppositeEndpoint :: "jsval \<Rightarrow> jsval" where
  "getOppositeEndpoint endpointIndex = Some (jxor endpointIndex 1)"

text \<open>
  \<^verbatim>\<open>Math.floor(endpointIndex / 2)\<close>. On \<^verbatim>\<open>undefined\<close> the result is \<^verbatim>\<open>NaN\<close>, written
  \<open>None\<close> here; the only use of such a result is as the key of a write to \<^verbatim>\<open>allowEdge\<close>.
\<close>

definition getEdgeFromEndpoint :: "jsval \<Rightarrow> jsval" where
  "getEdgeFromEndpoint endpointIndex = (case endpointIndex of None \<Rightarrow> None | Some p \<Rightarrow> Some (p div 2))"

definition edgeAt :: "edmonds \<Rightarrow> jsval \<Rightarrow> edge option" where
  "edgeAt s k = (case k of
       None \<Rightarrow> None
     | Some i \<Rightarrow> if 0 \<le> i \<and> nat i < length (edges s) then Some (edges s ! nat i) else None)"

text \<open>
  \<^verbatim>\<open>slack\<close>, lines 439 to 442. Destructuring \<^verbatim>\<open>this.edges[edgeIndex]\<close> throws a TypeError
  when there is no such edge.
\<close>

definition slack :: "edmonds \<Rightarrow> jsval \<Rightarrow> jsnum res" where
  "slack s edgeIndex = (case edgeAt s edgeIndex of
       None \<Rightarrow> throw TypeError
     | Some (vertex1, vertex2, weight) \<Rightarrow>
         ret (nsub (nadd (aget (dualVar s) (Some vertex1)) (aget (dualVar s) (Some vertex2)))
                (Some (2 * weight))))"

text \<open>
  \<^verbatim>\<open>allowEdge[getEdgeFromEndpoint(p)] = true\<close>. When \<open>p\<close> is \<^verbatim>\<open>undefined\<close> the key is
  \<^verbatim>\<open>NaN\<close>: the write sets a property that no read of \<^verbatim>\<open>allowEdge\<close> ever asks for,
  since every read uses the edge of an endpoint stored in \<^verbatim>\<open>neighbend\<close>.
\<close>

definition allowEdgeOfEndpoint :: "jsval \<Rightarrow> edmonds \<Rightarrow> edmonds" where
  "allowEdgeOfEndpoint p s = (case getEdgeFromEndpoint p of
       None \<Rightarrow> s
     | Some k \<Rightarrow> s\<lparr>allowEdge := aset (allowEdge s) (Some k) (Some True)\<rparr>)"

section \<open>blossomLeaves and assignLabel\<close>

primrec collectLeaves :: "(jsval \<Rightarrow> jsval list res) \<Rightarrow> int \<Rightarrow> jsval list \<Rightarrow> jsval list res" where
  "collectLeaves rec n [] = ret []"
| "collectLeaves rec n (child # rest) =
     bind (if jle child n then ret [child] else rec child)
       (\<lambda>ls. bind (collectLeaves rec n rest) (\<lambda>rs. ret (ls @ rs)))"

text \<open>Lines 444 to 459. The test on a child is \<^verbatim>\<open>child <= this.nVertex\<close>, as written.\<close>

primrec blossomLeaves :: "nat \<Rightarrow> edmonds \<Rightarrow> jsval \<Rightarrow> jsval list res" where
  "blossomLeaves 0 s b = None"
| "blossomLeaves (Suc fuel) s b =
     (if jlt b (int (nVertex s)) then ret [b]
      else collectLeaves (blossomLeaves fuel s) (int (nVertex s))
             (case aget (blossomChilds s) b of None \<Rightarrow> [] | Some childList \<Rightarrow> childList))"

text \<open>Lines 467 to 485.\<close>

primrec assignLabel :: "nat \<Rightarrow> jsval \<Rightarrow> int \<Rightarrow> jsval \<Rightarrow> edmonds \<Rightarrow> edmonds res" where
  "assignLabel 0 vertex labelType labelingEdge s = None"
| "assignLabel (Suc fuel) vertex labelType labelingEdge s =
     (let blossom = aget (inBlossom s) vertex;
          s1 = s\<lparr>label := aset (aset (label s) blossom (Some labelType)) vertex (Some labelType),
                 labelEnd := aset (aset (labelEnd s) blossom labelingEdge) vertex labelingEdge,
                 bestEdge := aset (aset (bestEdge s) blossom (Some (-1))) vertex (Some (-1))\<rparr>
      in if labelType = 1 then
           bind (blossomLeaves fuel s1 blossom) (\<lambda>leaves. ret (s1\<lparr>queue := queue s1 @ leaves\<rparr>))
         else if labelType = 2 then
           (let baseVertex = aget (blossomBase s1) blossom
            in assignLabel fuel (aget (endpoint s1) (aget (mate s1) baseVertex)) 1
                 (getOppositeEndpoint (aget (mate s1) baseVertex)) s1)
         else ret s1)"

section \<open>scanBlossom\<close>

text \<open>
  Lines 494 to 538. The two walkers are \<^verbatim>\<open>number | null\<close>: the outer \<open>option\<close> is
  \<^verbatim>\<open>null\<close>, the inner one \<^verbatim>\<open>undefined\<close>. The loop returns the base and the path of
  marked blossoms; \<^verbatim>\<open>scanBlossom\<close> then restores their labels to S.
\<close>

definition scanStep :: "edmonds \<Rightarrow> jsval \<Rightarrow> jsval option" where
  "scanStep s blossom =
     (if aget (labelEnd s) blossom = Some (-1) then None
      else (let c = aget (endpoint s) (aget (labelEnd s) blossom);
                b2 = aget (inBlossom s) c
            in Some (aget (endpoint s) (aget (labelEnd s) b2))))"

primrec scanLoop :: "nat \<Rightarrow> jsval option \<Rightarrow> jsval option \<Rightarrow> jsval list \<Rightarrow> edmonds
    \<Rightarrow> (jsval \<times> jsval list \<times> edmonds) res" where
  "scanLoop 0 current1 current2 path s = None"
| "scanLoop (Suc fuel) current1 current2 path s =
     (if current1 = None \<and> current2 = None then ret (Some (-1), path, s)
      else
        (let blossom = (case current1 of
                          Some c \<Rightarrow> aget (inBlossom s) c
                        | None \<Rightarrow> (case current2 of Some c \<Rightarrow> aget (inBlossom s) c | None \<Rightarrow> None));
             current2a = (case current1 of Some c \<Rightarrow> current2 | None \<Rightarrow> None)
         in if jand (aget (label s) blossom) 4 \<noteq> 0 then ret (aget (blossomBase s) blossom, path, s)
            else
              (let s1 = s\<lparr>label := aset (label s) blossom (Some 5)\<rparr>;
                   current1a = scanStep s1 blossom
               in if current2a \<noteq> None then scanLoop fuel current2a current1a (path @ [blossom]) s1
                  else scanLoop fuel current1a current2a (path @ [blossom]) s1)))"

definition scanBlossom :: "nat \<Rightarrow> jsval \<Rightarrow> jsval \<Rightarrow> edmonds \<Rightarrow> (jsval \<times> edmonds) res" where
  "scanBlossom fuel vertex1 vertex2 s =
     bind (scanLoop fuel (Some vertex1) (Some vertex2) [] s)
       (\<lambda>(base, path, s1).
          ret (base, s1\<lparr>label := fold (\<lambda>blossomIndex l. aset l blossomIndex (Some 1)) path (label s1)\<rparr>))"


section \<open>addBlossom\<close>

text \<open>The two walks from the ends of edge \<open>k\<close> down to the base blossom, lines 554 to 572.\<close>

primrec addBlossomWalkV :: "nat \<Rightarrow> jsval \<Rightarrow> jsval \<Rightarrow> jsval \<Rightarrow> jsval list \<Rightarrow> jsval list \<Rightarrow> edmonds
    \<Rightarrow> (jsval list \<times> jsval list \<times> edmonds) res" where
  "addBlossomWalkV 0 b baseBlossom vBlossom path endPs s = None"
| "addBlossomWalkV (Suc fuel) b baseBlossom vBlossom path endPs s =
     (if vBlossom \<noteq> baseBlossom then
        (let s1 = s\<lparr>blossomParent := aset (blossomParent s) vBlossom b\<rparr>;
             vNext = aget (endpoint s1) (aget (labelEnd s1) vBlossom)
         in addBlossomWalkV fuel b baseBlossom (aget (inBlossom s1) vNext)
              (path @ [vBlossom]) (endPs @ [aget (labelEnd s1) vBlossom]) s1)
      else ret (path, endPs, s))"

primrec addBlossomWalkW :: "nat \<Rightarrow> jsval \<Rightarrow> jsval \<Rightarrow> jsval \<Rightarrow> jsval list \<Rightarrow> jsval list \<Rightarrow> edmonds
    \<Rightarrow> (jsval list \<times> jsval list \<times> edmonds) res" where
  "addBlossomWalkW 0 b baseBlossom wBlossom path endPs s = None"
| "addBlossomWalkW (Suc fuel) b baseBlossom wBlossom path endPs s =
     (if wBlossom \<noteq> baseBlossom then
        (let s1 = s\<lparr>blossomParent := aset (blossomParent s) wBlossom b\<rparr>;
             wNext = aget (endpoint s1) (aget (labelEnd s1) wBlossom)
         in addBlossomWalkW fuel b baseBlossom (aget (inBlossom s1) wNext)
              (path @ [wBlossom]) (endPs @ [getOppositeEndpoint (aget (labelEnd s1) wBlossom)]) s1)
      else ret (path, endPs, s))"

text \<open>\<^verbatim>\<open>Array.prototype.map\<close> with a callback that may throw.\<close>

primrec mapRes :: "('a \<Rightarrow> 'b res) \<Rightarrow> 'a list \<Rightarrow> 'b list res" where
  "mapRes f [] = ret []"
| "mapRes f (x # xs) = bind (f x) (\<lambda>y. bind (mapRes f xs) (\<lambda>ys. ret (y # ys)))"

text \<open>The neighbour lists of one child of the new blossom, lines 588 to 597.\<close>

definition nbListsOf :: "nat \<Rightarrow> edmonds \<Rightarrow> jsval \<Rightarrow> jsval list list res" where
  "nbListsOf fuel s bv = (case aget (blossomBestEdges s) bv of
       None \<Rightarrow> throw TypeError
     | Some bestEdges \<Rightarrow>
         if length bestEdges = 0 then
           bind (blossomLeaves fuel s bv)
             (mapRes (\<lambda>vertex. case aget (neighbend s) vertex of
                          None \<Rightarrow> throw TypeError
                        | Some ps \<Rightarrow> ret (map (\<lambda>p. getEdgeFromEndpoint (Some p)) ps)))
         else ret [bestEdges])"

text \<open>The inner callback, lines 600 to 615, on the local array \<^verbatim>\<open>bestEdgeTo\<close>.\<close>

definition bestEdgeToStep :: "edmonds \<Rightarrow> jsval \<Rightarrow> jsval \<Rightarrow> int jsarray \<Rightarrow> int jsarray res" where
  "bestEdgeToStep s b edgeK bestEdgeTo = (case edgeAt s edgeK of
       None \<Rightarrow> throw TypeError
     | Some (i0, j0, w) \<Rightarrow>
         (let j = (if aget (inBlossom s) (Some j0) = b then i0 else j0);
              bj = aget (inBlossom s) (Some j)
          in if bj \<noteq> b \<and> aget (label s) bj = Some 1 then
               (if aget bestEdgeTo bj = Some (-1) then ret (aset bestEdgeTo bj edgeK)
                else bind (slack s edgeK) (\<lambda>sk. bind (slack s (aget bestEdgeTo bj)) (\<lambda>sb.
                       if nlt sk sb then ret (aset bestEdgeTo bj edgeK) else ret bestEdgeTo)))
             else ret bestEdgeTo))"

text \<open>One round of \<^verbatim>\<open>path.forEach\<close>, lines 587 to 619.\<close>

definition bestEdgesOfChild :: "nat \<Rightarrow> jsval \<Rightarrow> jsval \<Rightarrow> int jsarray \<times> edmonds \<Rightarrow> (int jsarray \<times> edmonds) res" where
  "bestEdgesOfChild fuel b bv = (\<lambda>(bestEdgeTo, s).
     bind (nbListsOf fuel s bv) (\<lambda>nbLists.
       bind (forEach (concat nbLists) (bestEdgeToStep s b) bestEdgeTo) (\<lambda>bestEdgeTo1.
         ret (bestEdgeTo1,
              s\<lparr>blossomBestEdges := aset (blossomBestEdges s) bv (Some []),
                bestEdge := aset (bestEdge s) bv (Some (-1))\<rparr>))))"

text \<open>The \<^verbatim>\<open>reduce\<close> of lines 624 to 627.\<close>

definition betterEdge :: "edmonds \<Rightarrow> jsval \<Rightarrow> jsval \<Rightarrow> jsval res" where
  "betterEdge s edgeK best =
     (if best = Some (-1) then ret edgeK
      else bind (slack s edgeK) (\<lambda>sk. bind (slack s best) (\<lambda>sb.
             if nlt sk sb then ret edgeK else ret best)))"

text \<open>The loop over the leaves of the new blossom, lines 579 to 584.\<close>

definition adoptLeaves :: "jsval \<Rightarrow> jsval list \<Rightarrow> edmonds \<Rightarrow> edmonds" where
  "adoptLeaves b leaves s =
     fold (\<lambda>vertex st.
             (if aget (label st) (aget (inBlossom st) vertex) = Some 2
              then st\<lparr>queue := queue st @ [vertex]\<rparr> else st)
             \<lparr>inBlossom := aset (inBlossom st) vertex b\<rparr>) leaves s"

text \<open>
  Lines 540 to 628. \<^verbatim>\<open>path\<close> and \<^verbatim>\<open>endPs\<close> are the arrays stored in
  \<^verbatim>\<open>blossomChilds[b]\<close> and \<^verbatim>\<open>blossomEndPs[b]\<close>: nothing reads these two entries while
  the walks fill them, so the model stores the finished lists. \<^verbatim>\<open>filter\<close> skips the
  holes of \<^verbatim>\<open>bestEdgeTo\<close>; a stored entry is an existing edge, never \<^verbatim>\<open>undefined\<close>.
\<close>

definition addBlossom :: "nat \<Rightarrow> jsval \<Rightarrow> int \<Rightarrow> edmonds \<Rightarrow> edmonds res" where
  "addBlossom fuel base k s = (case edgeAt s (Some k) of
       None \<Rightarrow> throw TypeError
     | Some (v, w, wt) \<Rightarrow>
         (let baseBlossom = aget (inBlossom s) base;
              vBlossom = aget (inBlossom s) (Some v);
              wBlossom = aget (inBlossom s) (Some w);
              b = (if unusedBlossoms s = [] then None else last (unusedBlossoms s));
              s1 = s\<lparr>unusedBlossoms := butlast (unusedBlossoms s),
                     blossomBase := aset (blossomBase s) b base,
                     blossomParent := aset (aset (blossomParent s) b (Some (-1))) baseBlossom b\<rparr>
          in bind (addBlossomWalkV fuel b baseBlossom vBlossom [] [] s1) (\<lambda>(pathV, endPsV, s2).
             bind (addBlossomWalkW fuel b baseBlossom wBlossom
                     (rev (pathV @ [baseBlossom])) (rev endPsV @ [Some (2 * k)]) s2)
               (\<lambda>(path, endPs, s3).
             (let s4 = s3\<lparr>blossomChilds := aset (blossomChilds s3) b (Some path),
                          blossomEndPs := aset (blossomEndPs s3) b (Some endPs),
                          label := aset (label s3) b (Some 1),
                          labelEnd := aset (labelEnd s3) b (aget (labelEnd s3) baseBlossom),
                          dualVar := aset (dualVar s3) b (Some 0)\<rparr>
              in bind (blossomLeaves fuel s4 b) (\<lambda>leaves.
                 (let s5 = adoptLeaves b leaves s4
                  in bind (forEach path (bestEdgesOfChild fuel b)
                             (filledArray (2 * nVertex s5) (-1), s5)) (\<lambda>(bestEdgeTo, s6).
                     (let be = filter (\<lambda>edgeK. edgeK \<noteq> Some (-1) \<and> edgeK \<noteq> None) (elems bestEdgeTo);
                          s7 = s6\<lparr>blossomBestEdges := aset (blossomBestEdges s6) b (Some be)\<rparr>
                      in bind (forEach be (betterEdge s7) (Some (-1))) (\<lambda>best.
                           ret (s7\<lparr>bestEdge := aset (bestEdge s7) b best\<rparr>)))))))))))"


section \<open>expandBlossom\<close>

text \<open>The first walk of the relabelling, lines 659 to 669.\<close>

primrec expandWalk :: "nat \<Rightarrow> jsval \<Rightarrow> int \<Rightarrow> int \<Rightarrow> int \<Rightarrow> jsval \<Rightarrow> edmonds
    \<Rightarrow> (int \<times> jsval \<times> edmonds) res" where
  "expandWalk 0 b jStep endpTrick j p s = None"
| "expandWalk (Suc fuel) b jStep endpTrick j p s =
     (if j \<noteq> 0 then
        (let s1 = s\<lparr>label := aset (label s) (aget (endpoint s) (getOppositeEndpoint p)) (Some 0)\<rparr>
         in case aget (blossomEndPs s1) b of
              None \<Rightarrow> throw TypeError
            | Some endPs \<Rightarrow>
                (let q = Some (jxor (Some (jxor (at_list endPs (j - endpTrick)) endpTrick)) 1);
                     s2 = s1\<lparr>label := aset (label s1) (aget (endpoint s1) q) (Some 0)\<rparr>
                 in bind (assignLabel fuel (aget (endpoint s2) (getOppositeEndpoint p)) 2 p s2) (\<lambda>s3.
                      case aget (blossomEndPs s3) b of
                        None \<Rightarrow> throw TypeError
                      | Some endPs3 \<Rightarrow>
                          (let s4 = allowEdgeOfEndpoint (at_list endPs3 (j - endpTrick)) s3;
                               j1 = j + jStep;
                               p1 = Some (jxor (at_list endPs3 (j1 - endpTrick)) endpTrick);
                               s5 = allowEdgeOfEndpoint p1 s4
                           in expandWalk fuel b jStep endpTrick (j1 + jStep) p1 s5))))
      else ret (j, p, s))"

text \<open>
  \<^verbatim>\<open>leaves.find(vertex => this.label[vertex] !== UNLABELED) ?? UNMATCHED\<close>: the first leaf
  with a label other than 0, and \<open>-1\<close> when \<^verbatim>\<open>find\<close> gives \<^verbatim>\<open>undefined\<close>.
\<close>

definition findLabelled :: "edmonds \<Rightarrow> jsval list \<Rightarrow> jsval" where
  "findLabelled s leaves = (case find (\<lambda>vertex. aget (label s) vertex \<noteq> Some 0) leaves of
       None \<Rightarrow> Some (-1)
     | Some None \<Rightarrow> Some (-1)
     | Some (Some v) \<Rightarrow> Some v)"

text \<open>The second walk, lines 677 to 691.\<close>

primrec expandRest :: "nat \<Rightarrow> jsval \<Rightarrow> int \<Rightarrow> jsval \<Rightarrow> int \<Rightarrow> edmonds \<Rightarrow> edmonds res" where
  "expandRest 0 b jStep entryChild j s = None"
| "expandRest (Suc fuel) b jStep entryChild j s = (case aget (blossomChilds s) b of
       None \<Rightarrow> throw TypeError
     | Some childs \<Rightarrow>
         if at_list childs j \<noteq> entryChild then
           (let currentBv = at_list childs j
            in if aget (label s) currentBv = Some 1 then expandRest fuel b jStep entryChild (j + jStep) s
               else bind (blossomLeaves fuel s currentBv) (\<lambda>leaves.
                 (let v = findLabelled s leaves
                  in if aget (label s) v \<noteq> Some 0 then
                       (let s1 = s\<lparr>label := aset (label s) v (Some 0)\<rparr>;
                            s2 = s1\<lparr>label := aset (label s1)
                                    (aget (endpoint s1) (aget (mate s1) (aget (blossomBase s1) currentBv)))
                                    (Some 0)\<rparr>
                        in bind (assignLabel fuel v 2 (aget (labelEnd s2) v) s2)
                             (expandRest fuel b jStep entryChild (j + jStep)))
                     else expandRest fuel b jStep entryChild (j + jStep) s)))
         else ret s)"

text \<open>The relabelling of a T-blossom expanded during a stage, lines 643 to 692.\<close>

definition expandRelabel :: "nat \<Rightarrow> jsval \<Rightarrow> edmonds \<Rightarrow> edmonds res" where
  "expandRelabel fuel b s =
     (let entryChild = aget (inBlossom s) (aget (endpoint s) (getOppositeEndpoint (aget (labelEnd s) b)))
      in case aget (blossomChilds s) b of
           None \<Rightarrow> throw TypeError
         | Some childs \<Rightarrow>
             (let j0 = indexOf childs entryChild;
                  odd = (jand (Some j0) 1 \<noteq> 0);
                  j = (if odd then j0 - int (length childs) else j0);
                  jStep = (if odd then 1 else -1);
                  endpTrick = (if odd then 0 else 1)
              in bind (expandWalk fuel b jStep endpTrick j (aget (labelEnd s) b) s) (\<lambda>(j1, p, s1).
                   case aget (blossomChilds s1) b of
                     None \<Rightarrow> throw TypeError
                   | Some childs1 \<Rightarrow>
                       (let bv = at_list childs1 j1;
                            e = aget (endpoint s1) (getOppositeEndpoint p);
                            s2 = s1\<lparr>label := aset (aset (label s1) bv (Some 2)) e (Some 2)\<rparr>;
                            e2 = aget (endpoint s2) (getOppositeEndpoint p);
                            s3 = s2\<lparr>labelEnd := aset (aset (labelEnd s2) bv p) e2 p,
                                   bestEdge := aset (bestEdge s2) bv (Some (-1))\<rparr>
                        in expandRest fuel b jStep entryChild (j1 + jStep) s3))))"

text \<open>
  The callback of \<^verbatim>\<open>blossomChilds[b].forEach\<close>, lines 631 to 641, for child \<open>c\<close>;
  \<open>rec\<close> is the recursive call of \<^verbatim>\<open>expandBlossom\<close>.
\<close>

definition detachChild :: "nat \<Rightarrow> (jsval \<Rightarrow> bool \<Rightarrow> edmonds \<Rightarrow> edmonds res) \<Rightarrow> bool \<Rightarrow> jsval \<Rightarrow> edmonds
    \<Rightarrow> edmonds res" where
  "detachChild fuel rec endStage c st =
     (let st1 = st\<lparr>blossomParent := aset (blossomParent st) c (Some (-1))\<rparr>
      in if jlt c (int (nVertex st1)) then ret (st1\<lparr>inBlossom := aset (inBlossom st1) c c\<rparr>)
         else if endStage \<and> aget (dualVar st1) c = Some 0 then rec c endStage st1
         else bind (blossomLeaves fuel st1 c) (\<lambda>leaves.
                ret (st1\<lparr>inBlossom := fold (\<lambda>v a. aset a v c) leaves (inBlossom st1)\<rparr>)))"

text \<open>The end of \<^verbatim>\<open>expandBlossom\<close>, lines 694 to 700: the blossom is recycled.\<close>

definition retireBlossom :: "jsval \<Rightarrow> edmonds \<Rightarrow> edmonds" where
  "retireBlossom b s = s\<lparr>label := aset (label s) b (Some (-1)),
                          labelEnd := aset (labelEnd s) b (Some (-1)),
                          blossomEndPs := aset (blossomEndPs s) b (Some []),
                          blossomChilds := aset (blossomChilds s) b (Some []),
                          blossomBase := aset (blossomBase s) b (Some (-1)),
                          blossomBestEdges := aset (blossomBestEdges s) b (Some []),
                          bestEdge := aset (bestEdge s) b (Some (-1)),
                          unusedBlossoms := unusedBlossoms s @ [b]\<rparr>"

text \<open>Lines 630 to 701.\<close>

primrec expandBlossom :: "nat \<Rightarrow> jsval \<Rightarrow> bool \<Rightarrow> edmonds \<Rightarrow> edmonds res" where
  "expandBlossom 0 b endStage s = None"
| "expandBlossom (Suc fuel) b endStage s = (case aget (blossomChilds s) b of
       None \<Rightarrow> throw TypeError
     | Some childs \<Rightarrow>
         bind (forEach childs (detachChild fuel (expandBlossom fuel) endStage) s) (\<lambda>s1.
           bind (if \<not> endStage \<and> aget (label s1) b = Some 2 then expandRelabel fuel b s1 else ret s1)
             (\<lambda>s2. ret (retireBlossom b s2))))"

section \<open>augmentBlossom and augmentMatching\<close>

text \<open>\<^verbatim>\<open>Array.prototype.slice\<close> with one bound; a negative bound counts from the end.\<close>

definition sliceFrom :: "'a list \<Rightarrow> int \<Rightarrow> 'a list" where
  "sliceFrom xs i = drop (nat (if i < 0 then max (int (length xs) + i) 0 else i)) xs"

definition sliceTo :: "'a list \<Rightarrow> int \<Rightarrow> 'a list" where
  "sliceTo xs i = take (nat (if i < 0 then max (int (length xs) + i) 0 else i)) xs"

text \<open>The climb of lines 705 to 707.\<close>

primrec findChildOf :: "nat \<Rightarrow> jsval \<Rightarrow> jsval \<Rightarrow> edmonds \<Rightarrow> jsval res" where
  "findChildOf 0 b currentBlossom s = None"
| "findChildOf (Suc fuel) b currentBlossom s =
     (if aget (blossomParent s) currentBlossom \<noteq> b
      then findChildOf fuel b (aget (blossomParent s) currentBlossom) s
      else ret currentBlossom)"

text \<open>
  \<^verbatim>\<open>if (childBlossom >= this.nVertex) this.augmentBlossom(childBlossom, v)\<close>; \<open>rec\<close> is
  \<^verbatim>\<open>augmentBlossom\<close>.
\<close>

definition augmentIfBlossom :: "(jsval \<Rightarrow> jsval \<Rightarrow> edmonds \<Rightarrow> edmonds res) \<Rightarrow> jsval \<Rightarrow> jsval \<Rightarrow> edmonds
    \<Rightarrow> edmonds res" where
  "augmentIfBlossom rec childBlossom v s =
     (if jge childBlossom (int (nVertex s)) then rec childBlossom v s else ret s)"

text \<open>Lines 738 and 739: the two ends of the edge of endpoint \<open>p\<close> become mates.\<close>

definition setMatePair :: "jsval \<Rightarrow> edmonds \<Rightarrow> edmonds" where
  "setMatePair p s =
     (let s1 = s\<lparr>mate := aset (mate s) (aget (endpoint s) p) (getOppositeEndpoint p)\<rparr>
      in s1\<lparr>mate := aset (mate s1) (aget (endpoint s1) (getOppositeEndpoint p)) p\<rparr>)"

text \<open>The loop of lines 726 to 740; \<open>rec\<close> is the recursive call of \<^verbatim>\<open>augmentBlossom\<close>.\<close>

primrec augmentWalk :: "nat \<Rightarrow> (jsval \<Rightarrow> jsval \<Rightarrow> edmonds \<Rightarrow> edmonds res) \<Rightarrow> jsval \<Rightarrow> int \<Rightarrow> int \<Rightarrow> int
    \<Rightarrow> edmonds \<Rightarrow> edmonds res" where
  "augmentWalk 0 rec b jStep endpTrick childIndex s = None"
| "augmentWalk (Suc fuel) rec b jStep endpTrick childIndex s =
     (if childIndex \<noteq> 0 then
        (case aget (blossomChilds s) b of
           None \<Rightarrow> throw TypeError
         | Some childs \<Rightarrow> (case aget (blossomEndPs s) b of
             None \<Rightarrow> throw TypeError
           | Some endPs \<Rightarrow>
               (let p = Some (jxor (at_list endPs (childIndex + jStep - endpTrick)) endpTrick)
                in bind (augmentIfBlossom rec (at_list childs (childIndex + jStep)) (aget (endpoint s) p) s) (\<lambda>s1.
                     case aget (blossomChilds s1) b of
                       None \<Rightarrow> throw TypeError
                     | Some childs1 \<Rightarrow>
                         bind (augmentIfBlossom rec (at_list childs1 (childIndex + jStep + jStep))
                                 (aget (endpoint s1) (getOppositeEndpoint p)) s1) (\<lambda>s2.
                           augmentWalk fuel rec b jStep endpTrick (childIndex + jStep + jStep)
                             (setMatePair p s2))))))
      else ret s)"

text \<open>Lines 703 to 749. The test before the recursive call is \<^verbatim>\<open>currentBlossom > this.nVertex\<close>, as written.\<close>

primrec augmentBlossom :: "nat \<Rightarrow> jsval \<Rightarrow> jsval \<Rightarrow> edmonds \<Rightarrow> edmonds res" where
  "augmentBlossom 0 b v s = None"
| "augmentBlossom (Suc fuel) b v s =
     bind (findChildOf fuel b v s) (\<lambda>currentBlossom.
     bind (if jgt currentBlossom (int (nVertex s)) then augmentBlossom fuel currentBlossom v s else ret s) (\<lambda>s1.
       case aget (blossomChilds s1) b of
         None \<Rightarrow> throw TypeError
       | Some childs \<Rightarrow>
           (let baseIndex = indexOf childs currentBlossom;
                odd = (jand (Some baseIndex) 1 \<noteq> 0);
                childIndex = (if odd then baseIndex - int (length childs) else baseIndex);
                jStep = (if odd then 1 else -1);
                endpTrick = (if odd then 0 else 1)
            in bind (augmentWalk fuel (augmentBlossom fuel) b jStep endpTrick childIndex s1) (\<lambda>s2.
                 case aget (blossomChilds s2) b of
                   None \<Rightarrow> throw TypeError
                 | Some childs2 \<Rightarrow>
                     (let s3 = s2\<lparr>blossomChilds := aset (blossomChilds s2) b
                                   (Some (sliceFrom childs2 baseIndex @ sliceTo childs2 baseIndex))\<rparr>
                      in case aget (blossomEndPs s3) b of
                           None \<Rightarrow> throw TypeError
                         | Some endPs3 \<Rightarrow>
                             (let s4 = s3\<lparr>blossomEndPs := aset (blossomEndPs s3) b
                                           (Some (sliceFrom endPs3 baseIndex @ sliceTo endPs3 baseIndex))\<rparr>
                              in case aget (blossomChilds s4) b of
                                   None \<Rightarrow> throw TypeError
                                 | Some childs4 \<Rightarrow>
                                     ret (s4\<lparr>blossomBase := aset (blossomBase s4) b
                                              (aget (blossomBase s4) (at_list childs4 0))\<rparr>)))))))"

text \<open>One side of the augmenting path, the \<^verbatim>\<open>while (true)\<close> of lines 767 to 785.\<close>

primrec augmentPath :: "nat \<Rightarrow> jsval \<Rightarrow> jsval \<Rightarrow> edmonds \<Rightarrow> edmonds res" where
  "augmentPath 0 sv p s = None"
| "augmentPath (Suc fuel) sv p s =
     (let bs = aget (inBlossom s) sv
      in bind (augmentIfBlossom (augmentBlossom fuel) bs sv s) (\<lambda>s1.
           (let s2 = s1\<lparr>mate := aset (mate s1) sv p\<rparr>
            in if aget (labelEnd s2) bs = Some (-1) then ret s2
               else
                 (let t = aget (endpoint s2) (aget (labelEnd s2) bs);
                      bt = aget (inBlossom s2) t;
                      sv1 = aget (endpoint s2) (aget (labelEnd s2) bt);
                      j = aget (endpoint s2) (getOppositeEndpoint (aget (labelEnd s2) bt))
                  in bind (augmentIfBlossom (augmentBlossom fuel) bt j s2) (\<lambda>s3.
                       (let s4 = s3\<lparr>mate := aset (mate s3) j (aget (labelEnd s3) bt)\<rparr>
                        in augmentPath fuel sv1 (getOppositeEndpoint (aget (labelEnd s4) bt)) s4))))))"

text \<open>Lines 751 to 787.\<close>

definition augmentMatching :: "nat \<Rightarrow> int \<Rightarrow> edmonds \<Rightarrow> edmonds res" where
  "augmentMatching fuel k s = (case edgeAt s (Some k) of
       None \<Rightarrow> throw TypeError
     | Some (v, w, wt) \<Rightarrow>
         bind (augmentPath fuel (Some v) (Some (2 * k + 1)) s)
           (augmentPath fuel (Some w) (Some (2 * k))))"


section \<open>The dual adjustment\<close>

text \<open>
  \<^verbatim>\<open>Math.min(...arr.slice(start, end + 1))\<close>. A hole or a NaN among the arguments makes
  the result NaN. With no argument at all \<^verbatim>\<open>Math.min\<close> is \<open>+Infinity\<close>, which \<open>jsnum\<close>
  cannot express and \<open>minList\<close> replaces by \<open>None\<close>: the slice taken here has
  \<open>nVertex\<close> elements, \<open>nVertex\<close> is positive whenever a stage runs and \<^verbatim>\<open>dualVar\<close>
  never shrinks.
\<close>

definition nmin :: "jsnum \<Rightarrow> jsnum \<Rightarrow> jsnum" where
  "nmin a b = (case a of None \<Rightarrow> None | Some x \<Rightarrow> (case b of None \<Rightarrow> None | Some y \<Rightarrow> Some (min x y)))"

definition nmax :: "jsnum \<Rightarrow> jsnum \<Rightarrow> jsnum" where
  "nmax a b = (case a of None \<Rightarrow> None | Some x \<Rightarrow> (case b of None \<Rightarrow> None | Some y \<Rightarrow> Some (max x y)))"

definition minList :: "jsnum list \<Rightarrow> jsnum" where
  "minList xs = (case xs of [] \<Rightarrow> None | x # rest \<Rightarrow> fold (\<lambda>y m. nmin m y) rest x)"

definition getMin :: "rat jsarray \<Rightarrow> int \<Rightarrow> int \<Rightarrow> jsnum" where
  "getMin arr start end = minList (drop (nat start) (take (nat (end + 1)) (elems arr)))"

text \<open>
  The four variables of lines 303 to 306: \<^verbatim>\<open>deltaType\<close>, \<^verbatim>\<open>delta\<close>, \<^verbatim>\<open>deltaEdge\<close>,
  \<^verbatim>\<open>deltaBlossom\<close>.
\<close>

type_synonym delta_vars = "int \<times> jsnum \<times> jsval \<times> jsval"

text \<open>Lines 309 to 312.\<close>

definition deltaInit :: "edmonds \<Rightarrow> delta_vars" where
  "deltaInit s =
     (if \<not> maxCardinality s then (1, getMin (dualVar s) 0 (int (nVertex s) - 1), Some (-1), Some (-1))
      else (-1, Some 0, Some (-1), Some (-1)))"

text \<open>The body of the loop of lines 315 to 324, for vertex \<open>v\<close>.\<close>

definition deltaEdgeSlack :: "edmonds \<Rightarrow> int \<Rightarrow> delta_vars \<Rightarrow> delta_vars res" where
  "deltaEdgeSlack s v = (\<lambda>(deltaType, delta, deltaEdge, deltaBlossom).
     if aget (label s) (aget (inBlossom s) (Some v)) = Some 0 \<and> aget (bestEdge s) (Some v) \<noteq> Some (-1) then
       bind (slack s (aget (bestEdge s) (Some v))) (\<lambda>edgeSlack.
         if deltaType = -1 \<or> nlt edgeSlack delta
         then ret (2, edgeSlack, aget (bestEdge s) (Some v), deltaBlossom)
         else ret (deltaType, delta, deltaEdge, deltaBlossom))
     else ret (deltaType, delta, deltaEdge, deltaBlossom))"

text \<open>The body of the loop of lines 328 to 342, for blossom \<open>b\<close>.\<close>

definition deltaBlossomSlack :: "edmonds \<Rightarrow> int \<Rightarrow> delta_vars \<Rightarrow> delta_vars res" where
  "deltaBlossomSlack s b = (\<lambda>(deltaType, delta, deltaEdge, deltaBlossom).
     if aget (blossomParent s) (Some b) = Some (-1) \<and> aget (label s) (Some b) = Some 1
        \<and> aget (bestEdge s) (Some b) \<noteq> Some (-1) then
       bind (slack s (aget (bestEdge s) (Some b))) (\<lambda>edgeSlack.
         (let blossomSlackDelta = nhalf edgeSlack
          in if deltaType = -1 \<or> nlt blossomSlackDelta delta
             then ret (3, blossomSlackDelta, aget (bestEdge s) (Some b), deltaBlossom)
             else ret (deltaType, delta, deltaEdge, deltaBlossom)))
     else ret (deltaType, delta, deltaEdge, deltaBlossom))"

text \<open>The body of the loop of lines 347 to 358, for blossom \<open>b\<close>.\<close>

definition deltaBlossomExpand :: "edmonds \<Rightarrow> int \<Rightarrow> delta_vars \<Rightarrow> delta_vars res" where
  "deltaBlossomExpand s b = (\<lambda>(deltaType, delta, deltaEdge, deltaBlossom).
     if jge (aget (blossomBase s) (Some b)) 0 \<and> aget (blossomParent s) (Some b) = Some (-1)
        \<and> aget (label s) (Some b) = Some 2
        \<and> (deltaType = -1 \<or> nlt (aget (dualVar s) (Some b)) delta)
     then ret (4, aget (dualVar s) (Some b), deltaEdge, Some b)
     else ret (deltaType, delta, deltaEdge, deltaBlossom))"

text \<open>Lines 361 to 364.\<close>

definition deltaFallback :: "edmonds \<Rightarrow> delta_vars \<Rightarrow> delta_vars" where
  "deltaFallback s = (\<lambda>(deltaType, delta, deltaEdge, deltaBlossom).
     if deltaType = -1
     then (1, nmax (Some 0) (getMin (dualVar s) 0 (int (nVertex s) - 1)), deltaEdge, deltaBlossom)
     else (deltaType, delta, deltaEdge, deltaBlossom))"

definition upto_int :: "nat \<Rightarrow> nat \<Rightarrow> int list" where
  "upto_int a b = map int [a ..< b]"

text \<open>Phase 3, lines 303 to 364.\<close>

definition computeDelta :: "edmonds \<Rightarrow> delta_vars res" where
  "computeDelta s =
     bind (forEach (upto_int 0 (nVertex s)) (deltaEdgeSlack s) (deltaInit s)) (\<lambda>d1.
     bind (forEach (upto_int 0 (2 * nVertex s)) (deltaBlossomSlack s) d1) (\<lambda>d2.
     bind (forEach (upto_int (nVertex s) (2 * nVertex s)) (deltaBlossomExpand s) d2) (\<lambda>d3.
     ret (deltaFallback s d3))))"

text \<open>Phase 4, lines 367 to 385.\<close>

definition applyDeltaVertex :: "jsnum \<Rightarrow> int \<Rightarrow> edmonds \<Rightarrow> edmonds" where
  "applyDeltaVertex delta v s =
     (let vertexLabel = aget (label s) (aget (inBlossom s) (Some v))
      in if vertexLabel = Some 1
         then s\<lparr>dualVar := aset (dualVar s) (Some v) (nsub (aget (dualVar s) (Some v)) delta)\<rparr>
         else if vertexLabel = Some 2
         then s\<lparr>dualVar := aset (dualVar s) (Some v) (nadd (aget (dualVar s) (Some v)) delta)\<rparr>
         else s)"

definition applyDeltaBlossom :: "jsnum \<Rightarrow> int \<Rightarrow> edmonds \<Rightarrow> edmonds" where
  "applyDeltaBlossom delta b s =
     (if jge (aget (blossomBase s) (Some b)) 0 \<and> aget (blossomParent s) (Some b) = Some (-1) then
        (if aget (label s) (Some b) = Some 1
         then s\<lparr>dualVar := aset (dualVar s) (Some b) (nadd (aget (dualVar s) (Some b)) delta)\<rparr>
         else if aget (label s) (Some b) = Some 2
         then s\<lparr>dualVar := aset (dualVar s) (Some b) (nsub (aget (dualVar s) (Some b)) delta)\<rparr>
         else s)
      else s)"

definition applyDelta :: "jsnum \<Rightarrow> edmonds \<Rightarrow> edmonds" where
  "applyDelta delta s =
     fold (applyDeltaBlossom delta) (upto_int (nVertex s) (2 * nVertex s))
       (fold (applyDeltaVertex delta) (upto_int 0 (nVertex s)) s)"

section \<open>The search and the stage loop\<close>

text \<open>Lines 245 to 250: an edge whose slack is not positive becomes allowed.\<close>

definition allowIfTight :: "int \<Rightarrow> edmonds \<Rightarrow> edmonds res" where
  "allowIfTight edgeIndex s =
     (if aget (allowEdge s) (Some edgeIndex) \<noteq> Some True then
        bind (slack s (Some edgeIndex)) (\<lambda>edgeSlack.
          if nle edgeSlack (Some 0)
          then ret (s\<lparr>allowEdge := aset (allowEdge s) (Some edgeIndex) (Some True)\<rparr>)
          else ret s)
      else ret s)"

text \<open>
  Lines 253 to 276, the three cases of an allowed edge. The result says whether the
  matching was augmented, which is the \<^verbatim>\<open>break\<close>.
\<close>

definition useAllowedEdge :: "nat \<Rightarrow> jsval \<Rightarrow> int \<Rightarrow> jsval \<Rightarrow> edmonds \<Rightarrow> (bool \<times> edmonds) res" where
  "useAllowedEdge fuel currentVertex edgeEndpoint adjacentVertex s =
     (if aget (label s) (aget (inBlossom s) adjacentVertex) = Some 0 then
        bind (assignLabel fuel adjacentVertex 2 (getOppositeEndpoint (Some edgeEndpoint)) s)
          (\<lambda>s1. ret (False, s1))
      else if aget (label s) (aget (inBlossom s) adjacentVertex) = Some 1 then
        bind (scanBlossom fuel currentVertex adjacentVertex s) (\<lambda>(base, s1).
          if jge base 0 then bind (addBlossom fuel base (edgeEndpoint div 2) s1) (\<lambda>s2. ret (False, s2))
          else bind (augmentMatching fuel (edgeEndpoint div 2) s1) (\<lambda>s2. ret (True, s2)))
      else if aget (label s) adjacentVertex = Some 0 then
        ret (False, s\<lparr>label := aset (label s) adjacentVertex (Some 2),
                       labelEnd := aset (labelEnd s) adjacentVertex
                                     (getOppositeEndpoint (Some edgeEndpoint))\<rparr>)
      else ret (False, s))"

text \<open>
  Lines 280 to 286 and 289 to 295: edge \<open>edgeIndex\<close> becomes the cached best edge of
  \<open>key\<close> (a blossom or a vertex) when there is none yet or when its slack is smaller.
\<close>

definition trackBestEdge :: "jsval \<Rightarrow> int \<Rightarrow> edmonds \<Rightarrow> edmonds res" where
  "trackBestEdge key edgeIndex s =
     bind (slack s (Some edgeIndex)) (\<lambda>currentEdgeSlack.
       if aget (bestEdge s) key = Some (-1)
       then ret (s\<lparr>bestEdge := aset (bestEdge s) key (Some edgeIndex)\<rparr>)
       else bind (slack s (aget (bestEdge s) key)) (\<lambda>bestSlack.
              if nlt currentEdgeSlack bestSlack
              then ret (s\<lparr>bestEdge := aset (bestEdge s) key (Some edgeIndex)\<rparr>)
              else ret s))"

text \<open>
  The body of the \<^verbatim>\<open>for\<close> loop over the endpoints of the current vertex, lines 238 to 296.
\<close>

definition scanEdge :: "nat \<Rightarrow> jsval \<Rightarrow> int \<Rightarrow> edmonds \<Rightarrow> (bool \<times> edmonds) res" where
  "scanEdge fuel currentVertex edgeEndpoint s =
     (let edgeIndex = edgeEndpoint div 2;
          adjacentVertex = aget (endpoint s) (Some edgeEndpoint)
      in if aget (inBlossom s) currentVertex = aget (inBlossom s) adjacentVertex then ret (False, s)
         else
           bind (allowIfTight edgeIndex s) (\<lambda>s1.
             if aget (allowEdge s1) (Some edgeIndex) = Some True then
               useAllowedEdge fuel currentVertex edgeEndpoint adjacentVertex s1
             else if aget (label s1) (aget (inBlossom s1) adjacentVertex) = Some 1 then
               bind (trackBestEdge (aget (inBlossom s1) currentVertex) edgeIndex s1) (\<lambda>s2. ret (False, s2))
             else if aget (label s1) adjacentVertex = Some 0 then
               bind (trackBestEdge adjacentVertex edgeIndex s1) (\<lambda>s2. ret (False, s2))
             else ret (False, s1)))"

primrec scanEdges :: "nat \<Rightarrow> jsval \<Rightarrow> int list \<Rightarrow> edmonds \<Rightarrow> (bool \<times> edmonds) res" where
  "scanEdges fuel currentVertex [] s = ret (False, s)"
| "scanEdges fuel currentVertex (edgeEndpoint # rest) s =
     bind (scanEdge fuel currentVertex edgeEndpoint s) (\<lambda>(augmented, s1).
       if augmented then ret (True, s1) else scanEdges fuel currentVertex rest s1)"

text \<open>Phase 2, the \<^verbatim>\<open>while\<close> of lines 233 to 298, entered with \<^verbatim>\<open>augmented\<close> false.\<close>

primrec searchLoop :: "nat \<Rightarrow> edmonds \<Rightarrow> (bool \<times> edmonds) res" where
  "searchLoop 0 s = None"
| "searchLoop (Suc fuel) s =
     (if queue s \<noteq> [] then
        (let currentVertex = last (queue s);
             s1 = s\<lparr>queue := butlast (queue s)\<rparr>
         in case aget (neighbend s1) currentVertex of
              None \<Rightarrow> throw TypeError
            | Some ps \<Rightarrow> bind (scanEdges fuel currentVertex ps s1) (\<lambda>(augmented, s2).
                if augmented then ret (True, s2) else searchLoop fuel s2))
      else ret (False, s))"

text \<open>Phase 5, lines 388 to 408, for the types that continue the stage.\<close>

definition deltaAction :: "nat \<Rightarrow> delta_vars \<Rightarrow> edmonds \<Rightarrow> edmonds res" where
  "deltaAction fuel = (\<lambda>(deltaType, delta, deltaEdge, deltaBlossom) s.
     if deltaType = 2 then
       (let s1 = s\<lparr>allowEdge := aset (allowEdge s) deltaEdge (Some True)\<rparr>
        in case edgeAt s1 deltaEdge of
             None \<Rightarrow> throw TypeError
           | Some (vertex1, vertex2, w) \<Rightarrow>
               if aget (label s1) (aget (inBlossom s1) (Some vertex1)) = Some 0
               then ret (s1\<lparr>queue := queue s1 @ [Some vertex2]\<rparr>)
               else ret (s1\<lparr>queue := queue s1 @ [Some vertex1]\<rparr>))
     else if deltaType = 3 then
       (let s1 = s\<lparr>allowEdge := aset (allowEdge s) deltaEdge (Some True)\<rparr>
        in case edgeAt s1 deltaEdge of
             None \<Rightarrow> throw TypeError
           | Some (vertex, vertex2, w) \<Rightarrow> ret (s1\<lparr>queue := queue s1 @ [Some vertex]\<rparr>))
     else if deltaType = 4 then expandBlossom fuel deltaBlossom False s
     else ret s)"

text \<open>The \<^verbatim>\<open>while (true)\<close> of lines 231 to 409; the result is \<^verbatim>\<open>augmented\<close>.\<close>

primrec stageLoop :: "nat \<Rightarrow> edmonds \<Rightarrow> (bool \<times> edmonds) res" where
  "stageLoop 0 s = None"
| "stageLoop (Suc fuel) s =
     bind (searchLoop fuel s) (\<lambda>(augmented, s1).
       if augmented then ret (True, s1)
       else bind (computeDelta s1) (\<lambda>d.
         (let s2 = applyDelta (fst (snd d)) s1
          in if fst d = 1 then ret (False, s2)
             else bind (deltaAction fuel d s2) (stageLoop fuel))))"

text \<open>The reset at the start of a stage, lines 217 to 221.\<close>

definition stageReset :: "edmonds \<Rightarrow> edmonds" where
  "stageReset s = s\<lparr>label := filledArray (2 * nVertex s) 0,
                    bestEdge := filledArray (2 * nVertex s) (-1),
                    blossomBestEdges := initArrArr (2 * nVertex s),
                    allowEdge := filledArray (nEdge s) False,
                    queue := []\<rparr>"

text \<open>Phase 1, lines 224 to 228.\<close>

definition labelRoots :: "nat \<Rightarrow> edmonds \<Rightarrow> edmonds res" where
  "labelRoots fuel s =
     forEach (upto_int 0 (nVertex s))
       (\<lambda>v st. if aget (mate st) (Some v) = Some (-1) \<and> aget (label st) (aget (inBlossom st) (Some v)) = Some 0
                then assignLabel fuel (Some v) 1 (Some (-1)) st else ret st) s"

text \<open>The end of a stage that augmented, lines 413 to 422.\<close>

definition expandZeroDual :: "nat \<Rightarrow> edmonds \<Rightarrow> edmonds res" where
  "expandZeroDual fuel s =
     forEach (upto_int (nVertex s) (2 * nVertex s))
       (\<lambda>b st. if aget (blossomParent st) (Some b) = Some (-1) \<and> jge (aget (blossomBase st) (Some b)) 0
                   \<and> aget (label st) (Some b) = Some 1 \<and> aget (dualVar st) (Some b) = Some 0
                then expandBlossom fuel (Some b) True st else ret st) s"

text \<open>What a stage does after its reset: phase 1 and the loop of searches and dual adjustments.\<close>

definition stageBody :: "nat \<Rightarrow> edmonds \<Rightarrow> (bool \<times> edmonds) res" where
  "stageBody fuel s = bind (labelRoots fuel s) (stageLoop fuel)"

text \<open>The \<^verbatim>\<open>for\<close> loop over stages, lines 215 to 423; \<open>t\<close> counts the stages left.\<close>

primrec runStages :: "nat \<Rightarrow> nat \<Rightarrow> edmonds \<Rightarrow> edmonds res" where
  "runStages fuel 0 s = ret s"
| "runStages fuel (Suc t) s =
     bind (stageBody fuel (stageReset s)) (\<lambda>(augmented, s1).
       if \<not> augmented then ret s1
       else bind (expandZeroDual fuel s1) (runStages fuel t))"

text \<open>Lines 425 to 429: endpoint indices become vertex ids.\<close>

definition mateToVertices :: "edmonds \<Rightarrow> edmonds" where
  "mateToVertices s =
     fold (\<lambda>v st. if jge (aget (mate st) (Some v)) 0
                  then st\<lparr>mate := aset (mate st) (Some v) (aget (endpoint st) (aget (mate st) (Some v)))\<rparr>
                  else st)
       (upto_int 0 (nVertex s)) s"

definition maxWeightMatching :: "nat \<Rightarrow> edmonds \<Rightarrow> jsval list res" where
  "maxWeightMatching fuel s =
     bind (runStages fuel (nVertex s) s) (\<lambda>s1. ret (elems (mate (mateToVertices s1))))"

section \<open>The entry point\<close>

text \<open>
  \<^verbatim>\<open>blossom\<close>, lines 28 to 54. The second argument is optional: \<open>None\<close> is an omitted or
  \<^verbatim>\<open>undefined\<close> flag, and \<^verbatim>\<open>maxCardinality || false\<close> turns it into \<^verbatim>\<open>false\<close>.
\<close>

definition blossom :: "nat \<Rightarrow> jsdata \<Rightarrow> bool option \<Rightarrow> (error + jsval list) option" where
  "blossom fuel edgesArg maxCardinalityArg = (case edgesArg of
       DArray es \<Rightarrow>
         if length es = 0 then Some (Inr [])
         else (case validateEdges es of
             Inl err \<Rightarrow> Some (Inl (Validation err))
           | Inr validated \<Rightarrow>
               (case newEdmonds validated (case maxCardinalityArg of None \<Rightarrow> False | Some flag \<Rightarrow> flag) of
                  Inl err \<Rightarrow> Some (Inl (Runtime err))
                | Inr edmonds \<Rightarrow>
                    (case maxWeightMatching fuel edmonds of
                       None \<Rightarrow> None
                     | Some (Inl err) \<Rightarrow> Some (Inl (Runtime err))
                     | Some (Inr matching) \<Rightarrow> Some (Inr matching))))
     | _ \<Rightarrow> Some (Inl (Validation EdgesNotArray)))"

section \<open>Definitions used to state the properties\<close>

text \<open>An edge as the caller writes it: the array \<^verbatim>\<open>[i, j, w]\<close>.\<close>

definition edgeData :: "int \<Rightarrow> int \<Rightarrow> rat \<Rightarrow> jsdata" where
  "edgeData i j w = DArray [DNumber (Finite (of_int i)), DNumber (Finite (of_int j)), DNumber (Finite w)]"




text \<open>Edge \<open>k\<close> is allowed: \<^verbatim>\<open>allowEdge[k]\<close> is \<^verbatim>\<open>true\<close>.\<close>

definition allowed :: "edmonds \<Rightarrow> jsval \<Rightarrow> bool" where
  "allowed s k \<longleftrightarrow> aget (allowEdge s) k = Some True"

text \<open>
  The engine's state when the loop over stages is left, before \<^verbatim>\<open>mate\<close> is rewritten
  from endpoint indices to vertex ids.
\<close>

definition stateAfterStages :: "nat \<Rightarrow> edge list \<Rightarrow> bool \<Rightarrow> edmonds res" where
  "stateAfterStages fuel es mc = (case newEdmonds es mc of
       Inl err \<Rightarrow> throw err
     | Inr s \<Rightarrow> runStages fuel (nVertex s) s)"

text \<open>
  The symmetry of \<^verbatim>\<open>mate\<close> at vertex \<open>v\<close> as the specification writes it: if
  \<^verbatim>\<open>mate[v] = p\<close> with \<open>p \<ge> 0\<close> then \<^verbatim>\<open>mate[endpoint[p ^ 1]] = p ^ 1\<close>.
\<close>

definition mateSymmetricAsStated :: "edmonds \<Rightarrow> int \<Rightarrow> bool" where
  "mateSymmetricAsStated s v = (case aget (mate s) (Some v) of
       None \<Rightarrow> True
     | Some p \<Rightarrow> 0 \<le> p \<longrightarrow>
         aget (mate s) (aget (endpoint s) (getOppositeEndpoint (Some p))) = getOppositeEndpoint (Some p))"

text \<open>
  A returned array \<open>m\<close> read as a set of edges of the graph: edge \<open>(i, j, w)\<close> is in the
  matching when \<open>m[i] = j\<close> and \<open>m[j] = i\<close>. \<open>matchingWeight\<close> adds the weights of
  these edges, \<open>matchingSize\<close> counts them, and \<open>isMatching\<close> says that every entry of
  \<open>m\<close> is \<open>-1\<close> or the other end of such an edge.
\<close>

definition inMatching :: "jsval list \<Rightarrow> edge \<Rightarrow> bool" where
  "inMatching m = (\<lambda>(i, j, w). 0 \<le> i \<and> 0 \<le> j \<and> nat i < length m \<and> nat j < length m
       \<and> m ! nat i = Some j \<and> m ! nat j = Some i)"

definition matchingWeight :: "edge list \<Rightarrow> jsval list \<Rightarrow> rat" where
  "matchingWeight es m = sum_list (map (\<lambda>(i, j, w). w) (filter (inMatching m) es))"

definition matchingSize :: "edge list \<Rightarrow> jsval list \<Rightarrow> nat" where
  "matchingSize es m = length (filter (inMatching m) es)"

definition isMatching :: "edge list \<Rightarrow> jsval list \<Rightarrow> bool" where
  "isMatching es m = list_all (\<lambda>v. m ! v = Some (-1)
       \<or> list_ex (\<lambda>(i, j, w). inMatching m (i, j, w) \<and> (int v = i \<or> int v = j)) es) [0 ..< length m]"

text \<open>The graph on which the returned matching is not a heaviest one.\<close>

definition exampleEdges :: "edge list" where
  "exampleEdges = [(0, 3, 25), (0, 5, 17), (0, 6, 25), (1, 3, 19), (1, 6, 19),
                   (3, 4, 15), (3, 6, 21), (4, 6, 14)]"

definition exampleInput :: jsdata where
  "exampleInput = DArray (map (\<lambda>(i, j, w). edgeData i j w) exampleEdges)"

section \<open>Definitions used in the proofs about a stage\<close>

definition frame :: "edmonds \<Rightarrow> bool jsarray \<times> int jsarray \<times> int jsarray \<times> edge list \<times> nat \<times> nat" where
  "frame s = (allowEdge s, mate s, endpoint s, edges s, nVertex s, nEdge s)"

definition steady :: "edmonds \<Rightarrow> edmonds \<Rightarrow> bool" where
  "steady s s' \<longleftrightarrow> (\<forall>k. allowed s k \<longrightarrow> allowed s' k) \<and> mate s' = mate s \<and> endpoint s' = endpoint s
     \<and> edges s' = edges s \<and> nVertex s' = nVertex s \<and> nEdge s' = nEdge s"

definition aframe :: "edmonds \<Rightarrow> bool jsarray \<times> int jsarray \<times> int jsarray \<times> int jsarray \<times> edge list \<times> nat \<times> nat" where
  "aframe s = (allowEdge s, endpoint s, labelEnd s, inBlossom s, edges s, nVertex s, nEdge s)"

definition post :: "'a res \<Rightarrow> ('a \<Rightarrow> bool) \<Rightarrow> bool" where
  "post m Q \<longleftrightarrow> (\<forall>x. m = Some (Inr x) \<longrightarrow> Q x)"

definition akeep :: "bool jsarray \<times> int jsarray \<times> int jsarray \<times> int jsarray \<times> edge list \<times> nat \<times> nat
    \<Rightarrow> edmonds \<Rightarrow> bool" where
  "akeep A s \<longleftrightarrow> aframe s = A"

definition grows :: "edmonds \<Rightarrow> edmonds \<Rightarrow> bool" where
  "grows s0 s \<longleftrightarrow> (\<forall>k. allowed s0 k \<longrightarrow> allowed s k)"

definition witnessState :: "edmonds option" where
  "witnessState = (case newEdmonds [(0, 1, 1)] False of
       Inl err \<Rightarrow> None
     | Inr s0 \<Rightarrow> Some (allowEdgeOfEndpoint (Some 0) (stageReset s0)))"

section \<open>The bounds of the dual adjustment\<close>













section \<open>Arrays\<close>

lemma aget_aset: "aget (aset a k v) k' = (if k' = k then v else aget a k')"
  by (cases k; cases k')
     (auto simp: aget_def aset_def isIndex_def nth_append nth_list_update nat_eq_iff split: if_splits)

section \<open>Graph setup\<close>












section \<open>Properties of the entry point\<close>

text \<open>
  Claim C10. Calling \<^verbatim>\<open>blossom\<close> with the \<^verbatim>\<open>maxCardinality\<close> argument omitted or
  \<^verbatim>\<open>undefined\<close> gives the same result as calling it with \<^verbatim>\<open>false\<close>, for every
  value of \<^verbatim>\<open>edges\<close>.
\<close>

theorem blossom_default_flag:
  "blossom fuel edgesArg None = blossom fuel edgesArg (Some False)"
  by (simp add: blossom_def split: jsdata.splits sum.splits)










section \<open>Runs on concrete graphs\<close>

text \<open>
  Claim C6, as stated, has \<^verbatim>\<open>mate[endpoint[p ^ 1]] = p ^ 1\<close> whenever \<^verbatim>\<open>mate[v] = p\<close>
  with \<open>p \<ge> 0\<close>, at every point of the execution. On the single edge \<open>(0, 1, 1)\<close> the
  stage loop ends with \<^verbatim>\<open>mate = [1, 0]\<close>: endpoint 1 is the far end of the edge seen from
  vertex 0, so \<^verbatim>\<open>endpoint[1 ^ 1]\<close> is vertex 0 itself and \<^verbatim>\<open>mate[0]\<close> is 1, not 0.
\<close>

theorem mate_symmetry_as_stated_fails:
  "(case stateAfterStages 20 [(0, 1, 1)] False of
      Some (Inr s) \<Rightarrow> aget (mate s) (Some 0) = Some 1 \<and> aget (mate s) (Some 1) = Some 0
                      \<and> \<not> mateSymmetricAsStated s 0
    | _ \<Rightarrow> False)"
  by code_simp

text \<open>
  Claim C2 on a graph of 7 vertices (vertex 2 has no edge) and 8 edges, without self-loops
  or parallel edges. \<^verbatim>\<open>blossom\<close> returns the matching \<open>{0-5, 1-3, 4-6}\<close> of weight 50,
  with and without the cardinality flag, while \<open>{0-5, 1-6, 3-4}\<close> is a matching of the
  same size and of weight 51.
\<close>

theorem blossom_suboptimal_on_example:
  "blossom 20 exampleInput None
     = Some (Inr [Some 5, Some 3, Some (-1), Some 1, Some 6, Some 0, Some 4])
   \<and> blossom 20 exampleInput (Some True)
     = Some (Inr [Some 5, Some 3, Some (-1), Some 1, Some 6, Some 0, Some 4])
   \<and> matchingWeight exampleEdges [Some 5, Some 3, Some (-1), Some 1, Some 6, Some 0, Some 4] = 50
   \<and> matchingSize exampleEdges [Some 5, Some 3, Some (-1), Some 1, Some 6, Some 0, Some 4] = 3
   \<and> isMatching exampleEdges [Some 5, Some 6, Some (-1), Some 4, Some 3, Some 0, Some 1]
   \<and> matchingWeight exampleEdges [Some 5, Some 6, Some (-1), Some 4, Some 3, Some 0, Some 1] = 51
   \<and> matchingSize exampleEdges [Some 5, Some 6, Some (-1), Some 4, Some 3, Some 0, Some 1] = 3"
  by code_simp

section \<open>What a stage leaves unchanged\<close>

lemma ret_eq [simp]: "(ret x = Some (Inr y)) = (x = y)"
  by (simp add: ret_def)

lemma throw_eq [simp]: "(throw e = Some (Inr y)) = False"
  by (simp add: throw_def)

lemma bind_eq: "(bind m f = Some (Inr y)) = (\<exists>x. m = Some (Inr x) \<and> f x = Some (Inr y))"
  by (cases m) (auto simp: bind_def split: sum.splits)

lemma forEach_keeps:
  assumes run: "forEach xs f s = Some (Inr s')"
    and step: "\<And>x s s'. x \<in> set xs \<Longrightarrow> f x s = Some (Inr s') \<Longrightarrow> g s' = g s"
  shows "g s' = g s"
  using assms
proof (induction xs arbitrary: s)
  case Nil
  then show ?case by simp
next
  case (Cons x xs)
  from Cons.prems(1) obtain s1 where 1: "f x s = Some (Inr s1)" and 2: "forEach xs f s1 = Some (Inr s')"
    by (auto simp: bind_eq)
  have "g s1 = g s" using Cons.prems(2)[OF _ 1] by simp
  moreover have "g s' = g s1"
  proof (rule Cons.IH[OF 2])
    fix y t t' assume "y \<in> set xs" "f y t = Some (Inr t')"
    then show "g t' = g t" using Cons.prems(2)[of y t t'] by simp
  qed
  ultimately show ?case by simp
qed

lemma fold_keeps:
  assumes "\<And>x s. g (f x s) = g s"
  shows "g (fold f xs s) = g s"
  using assms by (induction xs arbitrary: s) simp_all

lemma frame_updates [simp]:
  "frame (s\<lparr>label := l\<rparr>) = frame s"
  "frame (s\<lparr>labelEnd := le\<rparr>) = frame s"
  "frame (s\<lparr>bestEdge := be\<rparr>) = frame s"
  "frame (s\<lparr>queue := q\<rparr>) = frame s"
  "frame (s\<lparr>inBlossom := ib\<rparr>) = frame s"
  "frame (s\<lparr>blossomParent := bp\<rparr>) = frame s"
  "frame (s\<lparr>blossomChilds := bc\<rparr>) = frame s"
  "frame (s\<lparr>blossomBase := bb\<rparr>) = frame s"
  "frame (s\<lparr>blossomEndPs := bep\<rparr>) = frame s"
  "frame (s\<lparr>blossomBestEdges := bbe\<rparr>) = frame s"
  "frame (s\<lparr>unusedBlossoms := ub\<rparr>) = frame s"
  "frame (s\<lparr>dualVar := dv\<rparr>) = frame s"
  by (simp_all add: frame_def)

lemma assignLabel_frame:
  "assignLabel fuel v t p s = Some (Inr s') \<Longrightarrow> frame s' = frame s"
proof (induction fuel arbitrary: v t p s s')
  case 0
  then show ?case by simp
next
  case (Suc fuel)
  show ?case
    using Suc.prems Suc.IH
    by (auto simp: Let_def bind_eq split: if_splits)
qed

lemma scanLoop_frame:
  "scanLoop fuel c1 c2 path s = Some (Inr (base, path', s')) \<Longrightarrow> frame s' = frame s"
proof (induction fuel arbitrary: c1 c2 path s)
  case 0
  then show ?case by simp
next
  case (Suc fuel)
  show ?case
    using Suc.prems Suc.IH
    by (auto simp: Let_def bind_eq split: if_splits)
qed

lemma scanBlossom_frame:
  "scanBlossom fuel v w s = Some (Inr (base, s')) \<Longrightarrow> frame s' = frame s"
  by (auto simp: scanBlossom_def bind_eq dest!: scanLoop_frame)

lemma addBlossomWalkV_frame:
  "addBlossomWalkV fuel b bb vb path endPs s = Some (Inr (path', endPs', s')) \<Longrightarrow> frame s' = frame s"
proof (induction fuel arbitrary: vb path endPs s)
  case 0
  then show ?case by simp
next
  case (Suc fuel)
  show ?case
    using Suc.prems Suc.IH
    by (auto simp: Let_def split: if_splits)
qed

lemma addBlossomWalkW_frame:
  "addBlossomWalkW fuel b bb wb path endPs s = Some (Inr (path', endPs', s')) \<Longrightarrow> frame s' = frame s"
proof (induction fuel arbitrary: wb path endPs s)
  case 0
  then show ?case by simp
next
  case (Suc fuel)
  show ?case
    using Suc.prems Suc.IH
    by (auto simp: Let_def split: if_splits)
qed

lemma bestEdgesOfChild_frame:
  "bestEdgesOfChild fuel b bv (bt, s) = Some (Inr (bt', s')) \<Longrightarrow> frame s' = frame s"
  by (auto simp: bestEdgesOfChild_def bind_eq)

lemma bestEdgesOfChild_forEach_frame:
  assumes "forEach path (bestEdgesOfChild fuel b) (bt, s) = Some (Inr (bt', s'))"
  shows "frame s' = frame s"
  using forEach_keeps[where g = "\<lambda>(bt, s). frame s", OF assms]
  by (auto dest: bestEdgesOfChild_frame)

lemma adoptLeaves_frame [simp]: "frame (adoptLeaves b leaves s) = frame s"
  unfolding adoptLeaves_def by (rule fold_keeps) simp

lemma addBlossom_frame:
  "addBlossom fuel base k s = Some (Inr s') \<Longrightarrow> frame s' = frame s"
  by (auto simp: addBlossom_def Let_def bind_eq split: option.splits
           dest!: addBlossomWalkV_frame addBlossomWalkW_frame bestEdgesOfChild_forEach_frame)

lemma steady_refl [simp]: "steady s s"
  by (simp add: steady_def)

lemma steady_trans: "steady s s1 \<Longrightarrow> steady s1 s2 \<Longrightarrow> steady s s2"
  by (simp add: steady_def)

lemma frame_steady: "frame s' = frame s \<Longrightarrow> steady s s'"
  by (simp add: frame_def steady_def allowed_def)

lemma steady_updates [simp]:
  "steady s (s'\<lparr>label := l\<rparr>) = steady s s'"
  "steady s (s'\<lparr>labelEnd := le\<rparr>) = steady s s'"
  "steady s (s'\<lparr>bestEdge := be\<rparr>) = steady s s'"
  "steady s (s'\<lparr>queue := q\<rparr>) = steady s s'"
  "steady s (s'\<lparr>inBlossom := ib\<rparr>) = steady s s'"
  "steady s (s'\<lparr>blossomParent := bp\<rparr>) = steady s s'"
  "steady s (s'\<lparr>blossomChilds := bc\<rparr>) = steady s s'"
  "steady s (s'\<lparr>blossomBase := bb\<rparr>) = steady s s'"
  "steady s (s'\<lparr>blossomEndPs := bep\<rparr>) = steady s s'"
  "steady s (s'\<lparr>blossomBestEdges := bbe\<rparr>) = steady s s'"
  "steady s (s'\<lparr>unusedBlossoms := ub\<rparr>) = steady s s'"
  "steady s (s'\<lparr>dualVar := dv\<rparr>) = steady s s'"
  by (simp_all add: steady_def allowed_def)

lemma steady_updates_left [simp]:
  "steady (s\<lparr>label := l\<rparr>) s' = steady s s'"
  "steady (s\<lparr>labelEnd := le\<rparr>) s' = steady s s'"
  "steady (s\<lparr>bestEdge := be\<rparr>) s' = steady s s'"
  "steady (s\<lparr>queue := q\<rparr>) s' = steady s s'"
  "steady (s\<lparr>inBlossom := ib\<rparr>) s' = steady s s'"
  "steady (s\<lparr>blossomParent := bp\<rparr>) s' = steady s s'"
  "steady (s\<lparr>blossomChilds := bc\<rparr>) s' = steady s s'"
  "steady (s\<lparr>blossomBase := bb\<rparr>) s' = steady s s'"
  "steady (s\<lparr>blossomEndPs := bep\<rparr>) s' = steady s s'"
  "steady (s\<lparr>blossomBestEdges := bbe\<rparr>) s' = steady s s'"
  "steady (s\<lparr>unusedBlossoms := ub\<rparr>) s' = steady s s'"
  "steady (s\<lparr>dualVar := dv\<rparr>) s' = steady s s'"
  by (simp_all add: steady_def allowed_def)

lemma allowed_aset_True: "allowed s k \<Longrightarrow> allowed (s\<lparr>allowEdge := aset (allowEdge s) k' (Some True)\<rparr>) k"
  by (simp add: allowed_def aget_aset)

lemma allowEdgeOfEndpoint_steady: "steady s (allowEdgeOfEndpoint p s)"
  by (auto simp: allowEdgeOfEndpoint_def steady_def allowed_aset_True split: option.splits)

lemma forEach_rel:
  assumes run: "forEach xs f s = Some (Inr s')"
    and step: "\<And>x s s'. x \<in> set xs \<Longrightarrow> f x s = Some (Inr s') \<Longrightarrow> R s s'"
    and refl: "\<And>s. R s s"
    and trans: "\<And>s s1 s2. R s s1 \<Longrightarrow> R s1 s2 \<Longrightarrow> R s s2"
  shows "R s s'"
  using run step
proof (induction xs arbitrary: s)
  case Nil
  then show ?case by (simp add: refl)
next
  case (Cons x xs)
  from Cons.prems(1) obtain s1 where 1: "f x s = Some (Inr s1)" and 2: "forEach xs f s1 = Some (Inr s')"
    by (auto simp: bind_eq)
  have "R s s1" using Cons.prems(2)[OF _ 1] by simp
  moreover have "R s1 s'"
  proof (rule Cons.IH[OF 2])
    fix y t t' assume "y \<in> set xs" "f y t = Some (Inr t')"
    then show "R t t'" using Cons.prems(2)[of y t t'] by simp
  qed
  ultimately show ?case by (rule trans)
qed

lemma expandWalk_steady:
  "expandWalk fuel b jStep endpTrick j p s = Some (Inr (j', p', s')) \<Longrightarrow> steady s s'"
proof (induction fuel arbitrary: j p s)
  case 0
  then show ?case by simp
next
  case (Suc fuel)
  show ?case
  proof (cases "j = 0")
    case True
    with Suc.prems show ?thesis by simp
  next
    case False
    let ?s1 = "s\<lparr>label := aset (label s) (aget (endpoint s) (getOppositeEndpoint p)) (Some 0)\<rparr>"
    from Suc.prems False obtain endPs s3 endPs3 where
      a: "assignLabel fuel (aget (endpoint s) (getOppositeEndpoint p)) 2 p
            (?s1\<lparr>label := aset (label ?s1) (aget (endpoint ?s1)
               (Some (jxor (Some (jxor (at_list endPs (j - endpTrick)) endpTrick)) 1))) (Some 0)\<rparr>) = Some (Inr s3)"
      and r: "expandWalk fuel b jStep endpTrick (j + jStep + jStep)
            (Some (jxor (at_list endPs3 (j + jStep - endpTrick)) endpTrick))
            (allowEdgeOfEndpoint (Some (jxor (at_list endPs3 (j + jStep - endpTrick)) endpTrick))
               (allowEdgeOfEndpoint (at_list endPs3 (j - endpTrick)) s3)) = Some (Inr (j', p', s'))"
      by (auto simp: Let_def bind_eq split: option.splits)
    have "steady s s3" using frame_steady[OF assignLabel_frame[OF a]] by simp
    moreover have "steady s3 (allowEdgeOfEndpoint (at_list endPs3 (j - endpTrick)) s3)"
      by (rule allowEdgeOfEndpoint_steady)
    moreover have "steady (allowEdgeOfEndpoint (at_list endPs3 (j - endpTrick)) s3)
        (allowEdgeOfEndpoint (Some (jxor (at_list endPs3 (j + jStep - endpTrick)) endpTrick))
               (allowEdgeOfEndpoint (at_list endPs3 (j - endpTrick)) s3))"
      by (rule allowEdgeOfEndpoint_steady)
    moreover note Suc.IH[OF r]
    ultimately show ?thesis by (blast intro: steady_trans)
  qed
qed

lemma expandRest_frame:
  "expandRest fuel b jStep entryChild j s = Some (Inr s') \<Longrightarrow> frame s' = frame s"
proof (induction fuel arbitrary: j s)
  case 0
  then show ?case by simp
next
  case (Suc fuel)
  show ?case
    using Suc.prems Suc.IH
    by (auto simp: Let_def bind_eq split: option.splits if_splits dest!: assignLabel_frame)
qed

lemma expandRelabel_steady:
  "expandRelabel fuel b s = Some (Inr s') \<Longrightarrow> steady s s'"
  by (auto simp: expandRelabel_def Let_def bind_eq split: option.splits
           dest!: expandWalk_steady expandRest_frame frame_steady)
     (blast intro: steady_trans)

lemma retireBlossom_frame [simp]: "frame (retireBlossom b s) = frame s"
  by (simp add: retireBlossom_def)

lemma detachChild_steady:
  assumes rec: "\<And>c e s s'. rec c e s = Some (Inr s') \<Longrightarrow> steady s s'"
    and run: "detachChild fuel rec endStage c st = Some (Inr st')"
  shows "steady st st'"
  using run by (auto simp: detachChild_def Let_def bind_eq split: if_splits dest!: rec)

lemma expandBlossom_steady:
  "expandBlossom fuel b endStage s = Some (Inr s') \<Longrightarrow> steady s s'"
proof (induction fuel arbitrary: b endStage s s')
  case 0
  then show ?case by simp
next
  case (Suc fuel)
  from Suc.prems obtain childs s1 s2 where
    f: "forEach childs (detachChild fuel (expandBlossom fuel) endStage) s = Some (Inr s1)"
    and r: "(if \<not> endStage \<and> aget (label s1) b = Some 2 then expandRelabel fuel b s1 else ret s1) = Some (Inr s2)"
    and e: "s' = retireBlossom b s2"
    by (auto simp: bind_eq split: option.splits)
  have "steady s s1"
  proof (rule forEach_rel[OF f])
    fix c st st'
    assume "detachChild fuel (expandBlossom fuel) endStage c st = Some (Inr st')"
    then show "steady st st'"
      by (rule detachChild_steady[rotated]) (rule Suc.IH)
  qed (auto intro: steady_trans)
  moreover have "steady s1 s2"
    using r by (auto split: if_splits dest: expandRelabel_steady)
  moreover have "steady s2 s'"
    unfolding e by (rule frame_steady) simp
  ultimately show ?case by (blast intro: steady_trans)
qed

lemma aframe_updates [simp]:
  "aframe (s\<lparr>mate := m\<rparr>) = aframe s"
  "aframe (s\<lparr>blossomChilds := bc\<rparr>) = aframe s"
  "aframe (s\<lparr>blossomBase := bb\<rparr>) = aframe s"
  "aframe (s\<lparr>blossomEndPs := bep\<rparr>) = aframe s"
  by (simp_all add: aframe_def)

lemma setMatePair_aframe [simp]: "aframe (setMatePair p s) = aframe s"
  by (simp add: setMatePair_def Let_def)

lemma post_ret: "Q x \<Longrightarrow> post (ret x) Q"
  by (simp add: post_def)

lemma post_throw: "post (throw e) Q"
  by (simp add: post_def)

lemma post_None: "post None Q"
  by (simp add: post_def)

lemma post_bind: "post m (\<lambda>x. post (f x) Q) \<Longrightarrow> post (bind m f) Q"
  by (auto simp: post_def bind_eq)

lemma post_mono: "post m P \<Longrightarrow> (\<And>x. P x \<Longrightarrow> Q x) \<Longrightarrow> post m Q"
  by (auto simp: post_def)

lemma postD: "post m Q \<Longrightarrow> m = Some (Inr x) \<Longrightarrow> Q x"
  by (simp add: post_def)

lemma post_forEach:
  assumes "I s"
    and "\<And>x s. x \<in> set xs \<Longrightarrow> I s \<Longrightarrow> post (f x s) I"
  shows "post (forEach xs f s) I"
  using assms
proof (induction xs arbitrary: s)
  case Nil
  then show ?case by (simp add: post_ret)
next
  case (Cons x xs)
  show ?case
    unfolding forEach.simps
  proof (rule post_bind, rule post_mono)
    show "post (f x s) I" using Cons.prems by simp
  next
    fix s1 assume "I s1"
    then show "post (forEach xs f s1) I"
      using Cons.IH Cons.prems(2) by simp
  qed
qed

lemma akeep_updates [simp]:
  "akeep A (s\<lparr>mate := m\<rparr>) = akeep A s"
  "akeep A (s\<lparr>blossomChilds := bc\<rparr>) = akeep A s"
  "akeep A (s\<lparr>blossomBase := bb\<rparr>) = akeep A s"
  "akeep A (s\<lparr>blossomEndPs := bep\<rparr>) = akeep A s"
  "akeep A (setMatePair p s) = akeep A s"
  by (simp_all add: akeep_def)

lemma augmentIfBlossom_akeep:
  assumes rec: "\<And>b v s. akeep A s \<Longrightarrow> post (rec b v s) (akeep A)"
  shows "akeep A s \<Longrightarrow> post (augmentIfBlossom rec c v s) (akeep A)"
  by (auto simp: augmentIfBlossom_def intro!: post_ret rec)

lemma augmentWalk_akeep:
  assumes rec: "\<And>b v s. akeep A s \<Longrightarrow> post (rec b v s) (akeep A)"
  shows "akeep A s \<Longrightarrow> post (augmentWalk fuel rec b jStep endpTrick childIndex s) (akeep A)"
proof (induction fuel arbitrary: childIndex s)
  case 0
  then show ?case by (simp add: post_None)
next
  case (Suc fuel)
  show ?case
    using Suc.prems
    by (auto simp: Let_def split: option.splits
             intro!: post_ret post_throw post_bind post_mono[OF augmentIfBlossom_akeep[OF rec]] Suc.IH)
qed

lemma findChildOf_post: "(\<And>r. Q r) \<Longrightarrow> post (findChildOf fuel b c s) Q"
  by (simp add: post_def)

lemma augmentBlossom_akeep:
  "akeep A s \<Longrightarrow> post (augmentBlossom fuel b v s) (akeep A)"
proof (induction fuel arbitrary: b v s)
  case 0
  then show ?case by (simp add: post_None)
next
  case (Suc fuel)
  have w: "akeep A t \<Longrightarrow>
      post (augmentWalk fuel (augmentBlossom fuel) b' jStep endpTrick childIndex t) (akeep A)"
    for b' jStep endpTrick childIndex t
    by (rule augmentWalk_akeep) (rule Suc.IH)
  show ?case
    using Suc.prems
    by (auto simp: Let_def split: option.splits
             intro!: post_ret post_throw post_bind post_mono[OF w] post_mono[OF Suc.IH]
                     findChildOf_post)
qed

lemma augmentPath_akeep:
  "akeep A s \<Longrightarrow> post (augmentPath fuel sv p s) (akeep A)"
proof (induction fuel arbitrary: sv p s)
  case 0
  then show ?case by (simp add: post_None)
next
  case (Suc fuel)
  show ?case
    using Suc.prems
    by (auto simp: Let_def
             intro!: post_ret post_throw post_bind
                     post_mono[OF augmentIfBlossom_akeep[OF augmentBlossom_akeep]] Suc.IH)
qed

lemma augmentMatching_akeep:
  "akeep A s \<Longrightarrow> post (augmentMatching fuel k s) (akeep A)"
  by (auto simp: augmentMatching_def split: option.splits
           intro!: post_throw post_bind post_mono[OF augmentPath_akeep])

lemma grows_refl [simp]: "grows s s"
  by (simp add: grows_def)

lemma grows_updates [simp]:
  "grows s0 (s\<lparr>label := l\<rparr>) = grows s0 s"
  "grows s0 (s\<lparr>labelEnd := le\<rparr>) = grows s0 s"
  "grows s0 (s\<lparr>bestEdge := be\<rparr>) = grows s0 s"
  "grows s0 (s\<lparr>queue := q\<rparr>) = grows s0 s"
  "grows s0 (s\<lparr>inBlossom := ib\<rparr>) = grows s0 s"
  "grows s0 (s\<lparr>blossomParent := bp\<rparr>) = grows s0 s"
  "grows s0 (s\<lparr>blossomChilds := bc\<rparr>) = grows s0 s"
  "grows s0 (s\<lparr>blossomBase := bb\<rparr>) = grows s0 s"
  "grows s0 (s\<lparr>blossomEndPs := bep\<rparr>) = grows s0 s"
  "grows s0 (s\<lparr>blossomBestEdges := bbe\<rparr>) = grows s0 s"
  "grows s0 (s\<lparr>unusedBlossoms := ub\<rparr>) = grows s0 s"
  "grows s0 (s\<lparr>dualVar := dv\<rparr>) = grows s0 s"
  "grows s0 (s\<lparr>mate := m\<rparr>) = grows s0 s"
  by (simp_all add: grows_def allowed_def)

lemma grows_allow: "grows s0 s \<Longrightarrow> grows s0 (s\<lparr>allowEdge := aset (allowEdge s) k (Some True)\<rparr>)"
  by (simp add: grows_def allowed_aset_True)

lemma grows_frame: "frame s' = frame s \<Longrightarrow> grows s0 s \<Longrightarrow> grows s0 s'"
  by (simp add: frame_def grows_def allowed_def)

lemma grows_steady: "steady s s' \<Longrightarrow> grows s0 s \<Longrightarrow> grows s0 s'"
  by (simp add: steady_def grows_def)

lemma grows_aframe: "aframe s' = aframe s \<Longrightarrow> grows s0 s \<Longrightarrow> grows s0 s'"
  by (simp add: aframe_def grows_def allowed_def)

lemma assignLabel_grows: "grows s0 s \<Longrightarrow> post (assignLabel fuel v t p s) (grows s0)"
  by (auto simp: post_def dest!: assignLabel_frame intro: grows_frame)

lemma scanBlossom_grows: "grows s0 s \<Longrightarrow> post (scanBlossom fuel v w s) (\<lambda>(base, s'). grows s0 s')"
  by (auto simp: post_def dest!: scanBlossom_frame intro: grows_frame)

lemma addBlossom_grows: "grows s0 s \<Longrightarrow> post (addBlossom fuel base k s) (grows s0)"
  by (auto simp: post_def dest!: addBlossom_frame intro: grows_frame)

lemma expandBlossom_grows: "grows s0 s \<Longrightarrow> post (expandBlossom fuel b e s) (grows s0)"
  by (auto simp: post_def dest!: expandBlossom_steady intro: grows_steady)

lemma augmentMatching_grows: "grows s0 s \<Longrightarrow> post (augmentMatching fuel k s) (grows s0)"
proof -
  assume g: "grows s0 s"
  have "post (augmentMatching fuel k s) (akeep (aframe s))"
    by (rule augmentMatching_akeep) (simp add: akeep_def)
  then show ?thesis
    by (rule post_mono) (use g in \<open>auto simp: akeep_def intro: grows_aframe\<close>)
qed

lemma slack_post: "(\<And>r. Q r) \<Longrightarrow> post (slack s k) Q"
  by (simp add: post_def)

lemma allowIfTight_grows: "grows s0 s \<Longrightarrow> post (allowIfTight k s) (grows s0)"
  unfolding allowIfTight_def
  by (auto intro!: post_ret post_bind slack_post grows_allow)

lemma trackBestEdge_grows: "grows s0 s \<Longrightarrow> post (trackBestEdge key k s) (grows s0)"
  unfolding trackBestEdge_def
  by (auto intro!: post_ret post_bind slack_post)

lemma useAllowedEdge_grows:
  "grows s0 s \<Longrightarrow> post (useAllowedEdge fuel cv p av s) (\<lambda>(aug, s'). grows s0 s')"
  unfolding useAllowedEdge_def
  by (auto intro!: post_ret post_bind post_mono[OF assignLabel_grows] post_mono[OF scanBlossom_grows]
                   post_mono[OF addBlossom_grows] post_mono[OF augmentMatching_grows])

lemma scanEdge_grows:
  "grows s0 s \<Longrightarrow> post (scanEdge fuel cv p s) (\<lambda>(aug, s'). grows s0 s')"
  unfolding scanEdge_def Let_def
  by (auto intro!: post_ret post_bind post_mono[OF allowIfTight_grows] post_mono[OF trackBestEdge_grows]
                   useAllowedEdge_grows)

lemma scanEdges_grows:
  "grows s0 s \<Longrightarrow> post (scanEdges fuel cv ps s) (\<lambda>(aug, s'). grows s0 s')"
proof (induction ps arbitrary: s)
  case Nil
  then show ?case by (simp add: post_ret)
next
  case (Cons p ps)
  show ?case
    using Cons.prems
    by (auto intro!: post_ret post_bind post_mono[OF scanEdge_grows] Cons.IH)
qed

lemma searchLoop_grows:
  "grows s0 s \<Longrightarrow> post (searchLoop fuel s) (\<lambda>(aug, s'). grows s0 s')"
proof (induction fuel arbitrary: s)
  case 0
  then show ?case by (simp add: post_None)
next
  case (Suc fuel)
  show ?case
    using Suc.prems
    by (auto simp: Let_def split: option.splits
             intro!: post_ret post_throw post_bind post_mono[OF scanEdges_grows] Suc.IH)
qed

lemma applyDelta_allowEdge [simp]: "allowEdge (applyDelta delta s) = allowEdge s"
proof -
  have v: "allowEdge (fold (applyDeltaVertex delta) xs t) = allowEdge t" for xs t
    by (rule fold_keeps) (simp add: applyDeltaVertex_def Let_def)
  have b: "allowEdge (fold (applyDeltaBlossom delta) xs t) = allowEdge t" for xs t
    by (rule fold_keeps) (simp add: applyDeltaBlossom_def)
  show ?thesis by (simp add: applyDelta_def v b)
qed

lemma applyDelta_grows [simp]: "grows s0 (applyDelta delta s) = grows s0 s"
  by (simp add: grows_def allowed_def)

lemma deltaAction_grows:
  "grows s0 s \<Longrightarrow> post (deltaAction fuel d s) (grows s0)"
  unfolding deltaAction_def
  by (auto simp: Let_def split: option.splits prod.splits
           intro!: post_ret post_throw post_mono[OF expandBlossom_grows] grows_allow)

lemma computeDelta_post: "(\<And>r. Q r) \<Longrightarrow> post (computeDelta s) Q"
  by (simp add: post_def)

lemma stageLoop_grows:
  "grows s0 s \<Longrightarrow> post (stageLoop fuel s) (\<lambda>(aug, s'). grows s0 s')"
proof (induction fuel arbitrary: s)
  case 0
  then show ?case by (simp add: post_None)
next
  case (Suc fuel)
  show ?case
    using Suc.prems
    by (auto simp: Let_def
             intro!: post_ret post_bind post_mono[OF searchLoop_grows] computeDelta_post
                     post_mono[OF deltaAction_grows] Suc.IH)
qed

lemma labelRoots_grows:
  "grows s0 s \<Longrightarrow> post (labelRoots fuel s) (grows s0)"
  unfolding labelRoots_def
  by (rule post_forEach) (auto intro!: post_ret assignLabel_grows)

lemma expandZeroDual_grows:
  "grows s0 s \<Longrightarrow> post (expandZeroDual fuel s) (grows s0)"
  unfolding expandZeroDual_def
  by (rule post_forEach) (auto intro!: post_ret expandBlossom_grows)

lemma stageBody_grows:
  "grows s0 s \<Longrightarrow> post (stageBody fuel s) (\<lambda>(aug, s'). grows s0 s')"
  unfolding stageBody_def
  by (auto intro!: post_bind post_mono[OF labelRoots_grows] stageLoop_grows)

lemma stageReset_not_allowed: "\<not> allowed (stageReset s) k"
  by (cases k) (auto simp: stageReset_def allowed_def filledArray_def aget_def)

text \<open>
  Claim C8. Within a stage the flags \<^verbatim>\<open>allowEdge\<close> only grow: an edge that is allowed
  stays allowed through everything the stage does after its reset, that is phase 1 with
  the loop of searches and dual adjustments (\<open>stageBody\<close>), any later part of that loop
  (\<open>stageLoop\<close> from any state) and the expansions at the end of an augmenting stage
  (\<open>expandZeroDual\<close>). Only the reset at the start of a stage clears the flags.
\<close>

theorem allowEdge_monotone_within_stage:
  "(stageBody fuel s = Some (Inr (augmented, s1)) \<longrightarrow> (\<forall>k. allowed s k \<longrightarrow> allowed s1 k))
   \<and> (stageLoop fuel s = Some (Inr (augmented, s1)) \<longrightarrow> (\<forall>k. allowed s k \<longrightarrow> allowed s1 k))
   \<and> (expandZeroDual fuel s = Some (Inr s2) \<longrightarrow> (\<forall>k. allowed s k \<longrightarrow> allowed s2 k))
   \<and> (\<forall>k. \<not> allowed (stageReset s) k)"
  using postD[OF stageBody_grows[of s s fuel], of "(augmented, s1)"]
        postD[OF stageLoop_grows[of s s fuel], of "(augmented, s1)"]
        postD[OF expandZeroDual_grows[of s s fuel], of s2]
        stageReset_not_allowed[of s]
  by (auto simp: grows_def)

theorem allowEdge_monotone_within_stage_witness:
  "\<exists>s. witnessState = Some s \<and> allowed s (Some 0)
     \<and> (\<exists>augmented s1. stageBody 20 s = Some (Inr (augmented, s1)) \<and> allowed s1 (Some 0))
     \<and> (\<exists>augmented s1. stageLoop 20 s = Some (Inr (augmented, s1)) \<and> allowed s1 (Some 0))
     \<and> (\<exists>s2. expandZeroDual 20 s = Some (Inr s2) \<and> allowed s2 (Some 0))"
proof -
  have ev: "case witnessState of
      None \<Rightarrow> False
    | Some s \<Rightarrow> allowed s (Some 0)
        \<and> (case stageBody 20 s of Some (Inr r) \<Rightarrow> True | _ \<Rightarrow> False)
        \<and> (case stageLoop 20 s of Some (Inr r) \<Rightarrow> True | _ \<Rightarrow> False)
        \<and> (case expandZeroDual 20 s of Some (Inr r) \<Rightarrow> True | _ \<Rightarrow> False)"
    by code_simp
  then obtain s where s: "witnessState = Some s" and a: "allowed s (Some 0)"
    and b: "case stageBody 20 s of Some (Inr r) \<Rightarrow> True | _ \<Rightarrow> False"
    and l: "case stageLoop 20 s of Some (Inr r) \<Rightarrow> True | _ \<Rightarrow> False"
    and z: "case expandZeroDual 20 s of Some (Inr r) \<Rightarrow> True | _ \<Rightarrow> False"
    by (auto split: option.splits)
  from b obtain aug1 s1 where b1: "stageBody 20 s = Some (Inr (aug1, s1))"
    by (auto split: option.splits sum.splits)
  from l obtain aug2 s2 where l1: "stageLoop 20 s = Some (Inr (aug2, s2))"
    by (auto split: option.splits sum.splits)
  from z obtain s3 where z1: "expandZeroDual 20 s = Some (Inr s3)"
    by (auto split: option.splits sum.splits)
  have "allowed s1 (Some 0)"
    using allowEdge_monotone_within_stage[of 20 s aug1 s1] a b1 by blast
  moreover have "allowed s2 (Some 0)"
    using allowEdge_monotone_within_stage[of 20 s aug2 s2] a l1 by blast
  moreover have "allowed s3 (Some 0)"
    using allowEdge_monotone_within_stage[of 20 s _ _ s3] a z1 by blast
  ultimately show ?thesis using s a b1 l1 z1 by blast
qed

section \<open>The dual adjustment takes the earliest least bound\<close>

lemma bind_ret [simp]: "bind (ret x) f = f x"
  by (simp add: bind_def ret_def)

lemma bind_throw [simp]: "bind (throw e) f = throw e"
  by (simp add: bind_def throw_def)



















end
